theory Spec2Isabelle
  imports Main "HOL-Library.Word" "HOL-Library.Sublist"
begin

section \<open>Basic types\<close>

text \<open>
  A \<open>uuid.UUID\<close> is represented by its canonical string (\<open>.String()\<close>), a
  \<open>time.Time\<close> by a number of nanoseconds, Go's \<open>int64\<close> by a 64-bit word
  (\<open>+\<close> and \<open>-\<close> wrap, \<open><s\<close> is the signed comparison).
\<close>

type_synonym uuid = string
type_synonym time = int
type_synonym int64 = "64 word"

text \<open>
  \<open>base64.URLEncoding.EncodeToString(HMAC-SHA256(key, message))\<close> and the hexadecimal
  SHA-256 digest are functions of the Go standard library; the model takes them as
  parameters (first the key, then the message).
\<close>

type_synonym hmac_fn = "string \<Rightarrow> string \<Rightarrow> string"
type_synonym sha_fn = "string \<Rightarrow> string"

section \<open>Entities (src/Infrastructure/Data/Entities)\<close>

text \<open>
  The records keep the columns the handlers read or write. The surrogate key of a signed
  URL and the \<open>CreatedAt\<close>/\<open>UpdatedAt\<close> stamps maintained by the ORM are not read by any
  handler below and are left out.
\<close>

record SetupConfig =
  sc_SetupType :: string
  sc_StoragePath :: string
  sc_MaxStorage :: int64

record AuthRule =
  ar_Type :: string
  ar_Enabled :: bool
  ar_Config :: string

record Bucket =
  b_Id :: uuid
  b_Name :: string
  b_AuthRule :: AuthRule
  b_PublicRead :: bool

record File =
  f_Id :: uuid
  f_BucketId :: uuid
  f_Name :: string
  f_OriginalName :: string
  f_Path :: string
  f_Size :: int64
  f_MimeType :: string
  f_Checksum :: string
  f_Version :: int
  f_AuthRule :: AuthRule
  f_CustomMetadata :: "string \<rightharpoonup> string"
  f_UploadedBy :: uuid
  f_AccessedAt :: "time option"

record StorageNode =
  sn_Id :: uuid
  sn_Name :: string
  sn_URL :: string
  sn_AuthKey :: string
  sn_IsActive :: bool
  sn_IsHealthy :: bool
  sn_Priority :: int
  sn_MaxStorage :: int64
  sn_UsedStorage :: int64
  sn_LastPing :: "time option"

record SignedURL =
  su_Signature :: string
  su_BucketName :: string
  su_FileName :: string
  su_Method :: string
  su_ExpiresAt :: time
  su_SingleUse :: bool
  su_Used :: bool
  su_UsedAt :: "time option"

text \<open>
  The database context (\<open>persistence.AppDbContext\<close>): one list of rows per table, in the
  order in which the table returns them. \<open>Where(...).FirstOrDefault()\<close> is \<^const>\<open>find\<close>
  with the equalities of the query, \<open>Add\<close> appends a row, \<open>Update\<close> and \<open>Remove\<close> act on
  the row with the same key. Reads do not fail in the model, with one exception: the
  bucket lookup that the upload handler makes after a node's counter was saved takes a
  flag. The writes whose error the handlers look at (or drop) take a flag saying whether
  the write went through.
\<close>

record db =
  SetupConfigs :: "SetupConfig list"
  Files :: "File list"
  Buckets :: "Bucket list"
  StorageNodes :: "StorageNode list"
  SignedURLs :: "SignedURL list"

record Settings =
  SignatureSecret :: string
  BaseURL :: string

definition update_SignedURL :: "SignedURL \<Rightarrow> SignedURL list \<Rightarrow> SignedURL list" where
  "update_SignedURL r rows = map (\<lambda>x. if su_Signature x = su_Signature r then r else x) rows"


definition update_StorageNode :: "StorageNode \<Rightarrow> StorageNode list \<Rightarrow> StorageNode list" where
  "update_StorageNode n rows = map (\<lambda>x. if sn_Id x = sn_Id n then n else x) rows"

section \<open>Capability tokens (src/Application/File/GenerateSignedURLRequest.go)\<close>

datatype token_error =
    FileNotFound
  | BucketNotFound
  | RemoveExpiredFailed
  | StoreSignatureFailed
  | SignatureNotFoundInDatabase
  | SignatureExpired
  | SignatureAlreadyUsed
  | BucketNotFoundForSignature
  | FileNotFoundForSignature
  | IntegrityCheckFailed
  | SignatureNotFound
  | MarkUsedFailed
  | SaveChangesFailed






text \<open>\<open>ValidateSignedURL\<close>: reads only, so it returns no database.\<close>

definition ValidateSignedURL ::
  "hmac_fn \<Rightarrow> Settings \<Rightarrow> time \<Rightarrow> db \<Rightarrow> string \<Rightarrow> token_error + SignedURL" where
  "ValidateSignedURL hm st now d signature =
    (case find (\<lambda>r. su_Signature r = signature) (SignedURLs d) of
       None \<Rightarrow> Inl SignatureNotFoundInDatabase
     | Some signedURL \<Rightarrow>
         if su_ExpiresAt signedURL < now then Inl SignatureExpired
         else if su_SingleUse signedURL \<and> su_Used signedURL then Inl SignatureAlreadyUsed
         else
          (case find (\<lambda>b. b_Name b = su_BucketName signedURL) (Buckets d) of
             None \<Rightarrow> Inl BucketNotFoundForSignature
           | Some bucket \<Rightarrow>
          (case find (\<lambda>f. f_Name f = su_FileName signedURL \<and> f_BucketId f = b_Id bucket) (Files d) of
             None \<Rightarrow> Inl FileNotFoundForSignature
           | Some file \<Rightarrow>
               let payload = b_Id bucket @ '':'' @ f_Id file;
                   expectedSignature = hm (SignatureSecret st) payload
               in if signature \<noteq> expectedSignature then Inl IntegrityCheckFailed
                  else Inr signedURL)))"

text \<open>
  \<open>MarkSignatureAsUsed\<close>: \<open>update_ok\<close> and \<open>save_ok\<close> say whether \<open>Update\<close> and
  \<open>SaveChanges\<close> succeed; \<open>None\<close> is the \<open>nil\<close> error.
\<close>

definition MarkSignatureAsUsed ::
  "bool \<Rightarrow> bool \<Rightarrow> time \<Rightarrow> db \<Rightarrow> string \<Rightarrow> token_error option \<times> db" where
  "MarkSignatureAsUsed update_ok save_ok now d signature =
    (case find (\<lambda>r. su_Signature r = signature) (SignedURLs d) of
       None \<Rightarrow> (Some SignatureNotFound, d)
     | Some signedURL \<Rightarrow>
         if su_SingleUse signedURL then
           (if \<not> update_ok then (Some MarkUsedFailed, d)
            else if \<not> save_ok then (Some SaveChangesFailed, d)
            else (None, d\<lparr>SignedURLs :=
                    update_SignedURL (signedURL\<lparr>su_Used := True, su_UsedAt := Some now\<rparr>)
                      (SignedURLs d)\<rparr>))
         else (None, d))"

text \<open>
  A run of validate and mark-used calls on one signature, each call with its own clock
  reading and write flags; only \<open>MarkSignatureAsUsed\<close> can change the database.
\<close>

datatype token_call = Validate time | MarkUsed bool bool time

fun run_token_calls :: "string \<Rightarrow> token_call list \<Rightarrow> db \<Rightarrow> db" where
  "run_token_calls signature [] d = d"
| "run_token_calls signature (Validate t # calls) d = run_token_calls signature calls d"
| "run_token_calls signature (MarkUsed update_ok save_ok t # calls) d =
     run_token_calls signature calls (snd (MarkSignatureAsUsed update_ok save_ok t d signature))"

text \<open>
  A single-use token that has been used: the row stored under the signature is single-use,
  marked used, and expires at \<open>e\<close>.
\<close>

definition consumed :: "string \<Rightarrow> time \<Rightarrow> db \<Rightarrow> bool" where
  "consumed signature e d =
     (case find (\<lambda>r. su_Signature r = signature) (SignedURLs d) of
        None \<Rightarrow> False
      | Some r \<Rightarrow> su_SingleUse r \<and> su_Used r \<and> su_ExpiresAt r = e)"

section \<open>Strings and paths\<close>

text \<open>\<open>strings.Split(s, "/")\<close> for a one-character separator.\<close>

fun split_sep :: "char \<Rightarrow> string \<Rightarrow> string list" where
  "split_sep c [] = [[]]"
| "split_sep c (x # xs) =
     (if x = c then [] # split_sep c xs
      else (case split_sep c xs of
              [] \<Rightarrow> [[x]]
            | y # ys \<Rightarrow> (x # y) # ys))"

text \<open>\<open>strings.HasPrefix\<close> is \<^const>\<open>prefix\<close>; \<open>strings.TrimPrefix\<close>:\<close>

definition TrimPrefix :: "string \<Rightarrow> string \<Rightarrow> string" where
  "TrimPrefix s p = (if prefix p s then drop (length p) s else s)"

fun join_sep :: "string list \<Rightarrow> string" where
  "join_sep [] = []"
| "join_sep [x] = x"
| "join_sep (x # y # ys) = x @ ''/'' @ join_sep (y # ys)"

text \<open>
  \<open>filepath.Join\<close> and \<open>filepath.Clean\<close> of the Go standard library, for the separator
  \<open>/\<close>, after their documented rules: empty elements are ignored, the rest is joined with
  the separator and cleaned; cleaning drops repeated separators and \<open>.\<close> elements, lets an
  inner \<open>..\<close> cancel the element before it, drops \<open>..\<close> at the start of a rooted path, and
  yields \<open>.\<close> for an empty result. \<open>clean_step\<close> keeps the elements seen so far, last first.
\<close>

definition clean_step :: "bool \<Rightarrow> string list \<Rightarrow> string \<Rightarrow> string list" where
  "clean_step rooted acc e =
     (if e = [] \<or> e = ''.'' then acc
      else if e = ''..'' then
        (case acc of
           [] \<Rightarrow> if rooted then [] else [''..'']
         | a # as \<Rightarrow> if a = ''..'' then ''..'' # acc else as)
      else e # acc)"

definition filepath_Clean :: "string \<Rightarrow> string" where
  "filepath_Clean p =
     (if p = [] then ''.''
      else
        let rooted = (hd p = CHR ''/'');
            elems = rev (foldl (clean_step rooted) [] (split_sep (CHR ''/'') p));
            out = (if rooted then ''/'' else []) @ join_sep elems
        in if out = [] then ''.'' else out)"

definition filepath_Join :: "string list \<Rightarrow> string" where
  "filepath_Join elems =
     (let es = filter (\<lambda>e. e \<noteq> []) elems
      in if es = [] then [] else filepath_Clean (join_sep es))"

text \<open>Path elements as cleaning leaves them: not empty, without a separator.\<close>

definition plain_elems :: "string list \<Rightarrow> bool" where
  "plain_elems es \<longleftrightarrow> (\<forall>e\<in>set es. e \<noteq> [] \<and> CHR ''/'' \<notin> set e)"

section \<open>Placement (DistributedUploadRequestHandler, src/unnamed/part_009)\<close>

record DistributedUploadCommand =
  uc_BucketID :: uuid
  uc_FileSize :: int64
  uc_FileName :: string
  uc_ContentType :: string
  uc_Metadata :: "(string \<rightharpoonup> string) option"
  uc_UploadedBy :: uuid

record StorageNodeResponse =
  snr_ID :: uuid
  snr_Name :: string
  snr_URL :: string
  snr_MaxStorage :: int64
  snr_UsedStorage :: int64
  snr_Priority :: int
  snr_IsActive :: bool
  snr_IsHealthy :: bool
  snr_LastPing :: "time option"

record DistributedUploadResponse =
  ur_File :: File
  ur_StorageNode :: "StorageNodeResponse option"
  ur_Success :: bool
  ur_Message :: string

datatype node_upload_error = NodeReadContentFailed | NodeBucketNotFound | NodeRequestFailed

datatype upload_error =
    MasterConfigMissing
  | NoActiveStorageNodes
  | NoStorageSpaceAvailable
  | UploadToNodeFailed node_upload_error
  | NodeRejectedUpload
  | UploadBucketNotFound
  | StoragePathNotConfigured
  | CreateBucketDirFailed
  | ReadContentFailed
  | SaveToDiskFailed
  | MarshalMetadataFailed
  | CreateFileRecordFailed

text \<open>
  What the handler gets from outside the database: the fresh \<open>uuid.New()\<close>, the bytes of
  \<open>command.FileReader\<close> (\<open>None\<close> when \<open>io.ReadAll\<close> fails), the status of the POST to the
  node's \<open>/api/v1/internal/upload\<close> (\<open>None\<close> when the request cannot be built or sent),
  and whether \<open>os.MkdirAll\<close>, \<open>os.WriteFile\<close>, \<open>json.Marshal\<close> and the two
  \<open>SaveChanges\<close> calls succeed. \<open>ue_bucket_read_ok\<close> says whether the query for the
  bucket in the second half of \<open>Handle\<close> comes back without error and with the rows of the
  table: that query runs after the upload to the node and the saving of its counter, and
  it can fail on a read error or find the bucket gone since \<open>uploadToNode\<close> looked it up.
\<close>

record upload_env =
  ue_new_uuid :: uuid
  ue_read_all :: "string option"
  ue_post_upload :: "StorageNode \<Rightarrow> nat option"
  ue_node_save_ok :: bool
  ue_bucket_read_ok :: bool
  ue_mkdir_ok :: bool
  ue_write_ok :: bool
  ue_marshal_ok :: bool
  ue_file_save_ok :: bool
  ue_sha256 :: sha_fn

text \<open>The master's state: its database and the files on its local disk.\<close>

record world =
  w_db :: db
  w_disk :: "string \<rightharpoonup> string"

text \<open>\<open>Files.SumField("Size")\<close>: the sum of the \<open>Size\<close> column over every row of the table.\<close>

definition SumField_Size :: "File list \<Rightarrow> int64" where
  "SumField_Size fs = sum_list (map f_Size fs)"

definition uploadToNode ::
  "upload_env \<Rightarrow> db \<Rightarrow> StorageNode \<Rightarrow> DistributedUploadCommand \<Rightarrow> uuid
     \<Rightarrow> node_upload_error + bool" where
  "uploadToNode env d node command fileID =
    (case ue_read_all env of
       None \<Rightarrow> Inl NodeReadContentFailed
     | Some fileContent \<Rightarrow>
    (case find (\<lambda>b. b_Id b = uc_BucketID command) (Buckets d) of
       None \<Rightarrow> Inl NodeBucketNotFound
     | Some bucket \<Rightarrow>
    (case ue_post_upload env node of
       None \<Rightarrow> Inl NodeRequestFailed
     | Some status \<Rightarrow> Inr (status = 200 \<or> status = 201))))"

definition StorageNodeResponse_of :: "StorageNode \<Rightarrow> StorageNodeResponse" where
  "StorageNodeResponse_of n =
     \<lparr>snr_ID = sn_Id n, snr_Name = sn_Name n, snr_URL = sn_URL n,
      snr_MaxStorage = sn_MaxStorage n, snr_UsedStorage = sn_UsedStorage n,
      snr_Priority = sn_Priority n, snr_IsActive = sn_IsActive n,
      snr_IsHealthy = sn_IsHealthy n, snr_LastPing = sn_LastPing n\<rparr>"

text \<open>
  The second half of \<open>Handle\<close> (from "Create file record"): the bytes go to the local disk
  unless a node took them, then the file record is added.
\<close>

definition store_payload ::
  "upload_env \<Rightarrow> world \<Rightarrow> DistributedUploadCommand \<Rightarrow> SetupConfig \<Rightarrow> Bucket \<Rightarrow> uuid
     \<Rightarrow> StorageNodeResponse option \<Rightarrow> upload_error + (string \<times> string \<times> world)" where
  "store_payload env w command masterConfig bucket fileID storageNode =
    (case storageNode of
       None \<Rightarrow>
         let storagePath = sc_StoragePath masterConfig in
         if storagePath = [] then Inl StoragePathNotConfigured
         else
           let bucketDir = filepath_Join [storagePath, b_Name bucket] in
           if \<not> ue_mkdir_ok env then Inl CreateBucketDirFailed
           else
             let filePath = filepath_Join [bucketDir, fileID] in
             (case ue_read_all env of
                None \<Rightarrow> Inl ReadContentFailed
              | Some fileContent \<Rightarrow>
                  if \<not> ue_write_ok env then Inl SaveToDiskFailed
                  else Inr (filePath, ue_sha256 env fileContent,
                            w\<lparr>w_disk := (w_disk w)(filePath \<mapsto> fileContent)\<rparr>))
     | Some sn \<Rightarrow>
         Inr (''node://'' @ snr_ID sn @ ''/'' @ uc_BucketID command @ ''/'' @ fileID,
              ''stored-on-node'', w))"

definition create_file_record ::
  "upload_env \<Rightarrow> world \<Rightarrow> DistributedUploadCommand \<Rightarrow> SetupConfig \<Rightarrow> uuid \<Rightarrow> int64
     \<Rightarrow> StorageNodeResponse option \<Rightarrow> (upload_error + DistributedUploadResponse) \<times> world" where
  "create_file_record env w command masterConfig fileID fileSize storageNode =
    (if \<not> ue_bucket_read_ok env then (Inl UploadBucketNotFound, w)
     else
    (case find (\<lambda>b. b_Id b = uc_BucketID command) (Buckets (w_db w)) of
       None \<Rightarrow> (Inl UploadBucketNotFound, w)
     | Some bucket \<Rightarrow>
    (case store_payload env w command masterConfig bucket fileID storageNode of
       Inl e \<Rightarrow> (Inl e, w)
     | Inr (filePath, checksum, w1) \<Rightarrow>
         let customMetadata = (case uc_Metadata command of None \<Rightarrow> Map.empty | Some m \<Rightarrow> m);
             customMetadata' =
               (case storageNode of
                  None \<Rightarrow> customMetadata
                | Some sn \<Rightarrow> customMetadata(''storage_node_id'' \<mapsto> snr_ID sn,
                                            ''storage_node_url'' \<mapsto> snr_URL sn))
         in
         if \<not> ue_marshal_ok env then (Inl MarshalMetadataFailed, w1)
         else
           let file = \<lparr>f_Id = fileID, f_BucketId = uc_BucketID command,
                       f_Name = uc_FileName command, f_OriginalName = uc_FileName command,
                       f_Path = filePath, f_Size = fileSize,
                       f_MimeType = uc_ContentType command, f_Checksum = checksum,
                       f_Version = 1, f_AuthRule = b_AuthRule bucket,
                       f_CustomMetadata = customMetadata',
                       f_UploadedBy = uc_UploadedBy command, f_AccessedAt = None\<rparr>
           in
           if \<not> ue_file_save_ok env then (Inl CreateFileRecordFailed, w1)
           else
             (Inr \<lparr>ur_File = file, ur_StorageNode = storageNode, ur_Success = True,
                   ur_Message =
                     (case storageNode of
                        None \<Rightarrow> ''File uploaded successfully to master''
                      | Some sn \<Rightarrow> ''File uploaded successfully to storage node: '' @ snr_Name sn)\<rparr>,
              w1\<lparr>w_db := (w_db w1)\<lparr>Files := Files (w_db w1) @ [file]\<rparr>\<rparr>))))"

text \<open>
  \<open>DistributedUploadRequestHandler.Handle\<close>. Without a master row \<open>FirstOrDefault\<close>
  yields \<open>nil\<close> and the handler panics on \<open>masterConfig.MaxStorage\<close>; that is the error
  \<open>MasterConfigMissing\<close>. The error of the \<open>SaveChanges\<close> that follows
  \<open>StorageNodes.Update\<close> is dropped by the handler, which goes on either way.
\<close>

definition DistributedUpload ::
  "upload_env \<Rightarrow> world \<Rightarrow> DistributedUploadCommand
     \<Rightarrow> (upload_error + DistributedUploadResponse) \<times> world" where
  "DistributedUpload env w command =
    (case find (\<lambda>c. sc_SetupType c = ''master'') (SetupConfigs (w_db w)) of
       None \<Rightarrow> (Inl MasterConfigMissing, w)
     | Some masterConfig \<Rightarrow>
         let fileSize = uc_FileSize command;
             masterUsedStorage = SumField_Size (Files (w_db w));
             masterFreeSpace = sc_MaxStorage masterConfig - masterUsedStorage;
             fileID = ue_new_uuid env
         in
         if masterFreeSpace <s fileSize then
           (case find (\<lambda>n. sn_IsActive n \<and> sn_IsHealthy n) (StorageNodes (w_db w)) of
              None \<Rightarrow> (Inl NoActiveStorageNodes, w)
            | Some availableNode \<Rightarrow>
                if sn_MaxStorage availableNode - sn_UsedStorage availableNode <s fileSize
                then (Inl NoStorageSpaceAvailable, w)
                else
                  (case uploadToNode env (w_db w) availableNode command fileID of
                     Inl e \<Rightarrow> (Inl (UploadToNodeFailed e), w)
                   | Inr success \<Rightarrow>
                       if \<not> success then (Inl NodeRejectedUpload, w)
                       else
                         let availableNode' = availableNode
                               \<lparr>sn_UsedStorage := sn_UsedStorage availableNode + fileSize\<rparr>;
                             w1 = (if ue_node_save_ok env
                                   then w\<lparr>w_db := (w_db w)\<lparr>StorageNodes :=
                                          update_StorageNode availableNode' (StorageNodes (w_db w))\<rparr>\<rparr>
                                   else w)
                         in create_file_record env w1 command masterConfig fileID fileSize
                              (Some (StorageNodeResponse_of availableNode'))))
         else create_file_record env w command masterConfig fileID fileSize None)"

text \<open>
  The master's free space as the handler computes it (its \<open>masterFreeSpace\<close>), and the
  free space left by the objects that are on the master's own disk: a record whose path
  starts with \<open>node://\<close> stands for bytes held by a node (that prefix is what
  \<open>ServeFile\<close> and \<open>deletePhysicalFile\<close> test).
\<close>

definition master_free_space :: "db \<Rightarrow> SetupConfig \<Rightarrow> int64" where
  "master_free_space d masterConfig = sc_MaxStorage masterConfig - SumField_Size (Files d)"

definition stored_on_node :: "File \<Rightarrow> bool" where
  "stored_on_node f \<longleftrightarrow> prefix ''node://'' (f_Path f)"

definition local_free_space :: "db \<Rightarrow> SetupConfig \<Rightarrow> int64" where
  "local_free_space d masterConfig =
     sc_MaxStorage masterConfig - SumField_Size (filter (\<lambda>f. \<not> stored_on_node f) (Files d))"

section \<open>Node health (NodeController, src/Infrastructure/Services/SignatureValidationService.go)\<close>

text \<open>
  A controller answers with a status and an error text, or with a body. What the master
  sees of a node when it calls its \<open>/api/v1/health\<close>: the status code (\<open>None\<close> when the
  request cannot be built or sent), the elapsed milliseconds, and the \<open>time.Now()\<close> read
  after the call. The \<open>Message\<close> of a health result is formatted from its \<open>IsHealthy\<close> and
  \<open>Error\<close> fields and is left out.
\<close>

datatype 'a response = Failure nat string | Success 'a

record probe =
  pr_status :: "nat option"
  pr_response_ms :: int
  pr_now :: time

datatype ping_error = NoPingError | PingRequestFailed | PingBadStatus nat

record NodeHealthCheckResponse =
  hr_NodeID :: uuid
  hr_IsHealthy :: bool
  hr_ResponseTime :: int
  hr_Success :: bool
  hr_Error :: ping_error

record AllNodesHealthResponse =
  ah_success :: bool
  ah_total_nodes :: nat
  ah_healthy_nodes :: nat
  ah_unhealthy_nodes :: nat
  ah_health_results :: "NodeHealthCheckResponse list"

definition pingNode :: "(StorageNode \<Rightarrow> probe) \<Rightarrow> StorageNode \<Rightarrow> bool \<times> int \<times> ping_error" where
  "pingNode net node =
     (let responseTime = pr_response_ms (net node) in
      case pr_status (net node) of
        None \<Rightarrow> (False, responseTime, PingRequestFailed)
      | Some status \<Rightarrow>
          if 200 \<le> status \<and> status < 300 then (True, responseTime, NoPingError)
          else (False, responseTime, PingBadStatus status))"

text \<open>
  \<open>HealthCheck\<close>: the path parameter is given as the result of \<open>uuid.Parse\<close>; \<open>save_ok\<close>
  says whether \<open>SaveChanges\<close> succeeds.
\<close>

definition HealthCheck ::
  "(StorageNode \<Rightarrow> probe) \<Rightarrow> bool \<Rightarrow> db \<Rightarrow> uuid option
     \<Rightarrow> NodeHealthCheckResponse response \<times> db" where
  "HealthCheck net save_ok d nodeIDParam =
    (case nodeIDParam of
       None \<Rightarrow> (Failure 400 ''Invalid node ID'', d)
     | Some nodeID \<Rightarrow>
    (case find (\<lambda>n. sn_Id n = nodeID) (StorageNodes d) of
       None \<Rightarrow> (Failure 404 ''Node not found'', d)
     | Some storageNode \<Rightarrow>
         (case pingNode net storageNode of (isHealthy, responseTime, errorMsg) \<Rightarrow>
            let now = pr_now (net storageNode);
                storageNode' = storageNode
                  \<lparr>sn_IsHealthy := isHealthy, sn_LastPing := Some now, sn_IsActive := True\<rparr>
            in
            if \<not> save_ok then (Failure 500 ''Failed to update node health status'', d)
            else
              (Success \<lparr>hr_NodeID = nodeID, hr_IsHealthy = isHealthy,
                        hr_ResponseTime = responseTime, hr_Success = isHealthy,
                        hr_Error = errorMsg\<rparr>,
               d\<lparr>StorageNodes := update_StorageNode storageNode' (StorageNodes d)\<rparr>))))"

text \<open>
  The loop of \<open>CheckAllNodesHealth\<close> over \<open>allNodes\<close>: the updated slice, the results and
  the count of healthy nodes.
\<close>

fun check_nodes ::
  "(StorageNode \<Rightarrow> probe) \<Rightarrow> StorageNode list
     \<Rightarrow> StorageNode list \<times> NodeHealthCheckResponse list \<times> nat" where
  "check_nodes net [] = ([], [], 0)"
| "check_nodes net (n # ns) =
     (case pingNode net n of (isHealthy, responseTime, errorMsg) \<Rightarrow>
      case check_nodes net ns of (ns', results, healthyCount) \<Rightarrow>
        (n\<lparr>sn_IsHealthy := isHealthy, sn_LastPing := Some (pr_now (net n)), sn_IsActive := True\<rparr>
           # ns',
         \<lparr>hr_NodeID = sn_Id n, hr_IsHealthy = isHealthy, hr_ResponseTime = responseTime,
          hr_Success = isHealthy, hr_Error = errorMsg\<rparr> # results,
         (if isHealthy then healthyCount + 1 else healthyCount)))"

text \<open>\<open>StorageNodes.UpdateRange\<close>: one \<open>Update\<close> for each element.\<close>

fun UpdateRange :: "StorageNode list \<Rightarrow> StorageNode list \<Rightarrow> StorageNode list" where
  "UpdateRange [] rows = rows"
| "UpdateRange (n # ns) rows = UpdateRange ns (update_StorageNode n rows)"

definition CheckAllNodesHealth ::
  "(StorageNode \<Rightarrow> probe) \<Rightarrow> bool \<Rightarrow> db \<Rightarrow> AllNodesHealthResponse response \<times> db" where
  "CheckAllNodesHealth net save_ok d =
    (case check_nodes net (StorageNodes d) of (allNodes, healthResults, healthyCount) \<Rightarrow>
       if \<not> save_ok then (Failure 500 ''Failed to save health check changes'', d)
       else
         (Success \<lparr>ah_success = True, ah_total_nodes = length allNodes,
                   ah_healthy_nodes = healthyCount,
                   ah_unhealthy_nodes = length allNodes - healthyCount,
                   ah_health_results = healthResults\<rparr>,
          d\<lparr>StorageNodes := UpdateRange allNodes (StorageNodes d)\<rparr>))"

text \<open>
  \<open>Ping\<close>: the \<open>url\<close> query parameter and the \<open>Authorization\<close> and \<open>X-API-Key\<close> headers;
  \<open>save_ok\<close> says whether \<open>StorageNodes.Save\<close> succeeds. The answer carries the node's id.
\<close>

definition Ping ::
  "bool \<Rightarrow> time \<Rightarrow> db \<Rightarrow> string \<Rightarrow> string \<Rightarrow> string \<Rightarrow> uuid response \<times> db" where
  "Ping save_ok now d nodeURL authorization xApiKey =
    (let authKey = (if authorization = [] then xApiKey else authorization) in
     if nodeURL = [] then (Failure 400 ''Node URL parameter required'', d)
     else if authKey = [] then
       (Failure 401 ''Authorization header or X-API-Key header required'', d)
     else
       let authKey' = (if prefix ''Bearer '' authKey then TrimPrefix authKey ''Bearer '' else authKey) in
       (case find (\<lambda>n. sn_URL n = nodeURL \<and> sn_AuthKey n = authKey') (StorageNodes d) of
          None \<Rightarrow> (Failure 401 ''Invalid node credentials'', d)
        | Some storageNode \<Rightarrow>
            let storageNode' = storageNode\<lparr>sn_LastPing := Some now, sn_IsHealthy := True\<rparr> in
            if \<not> save_ok then (Failure 500 ''Failed to update node status'', d)
            else (Success (sn_Id storageNode),
                  d\<lparr>StorageNodes := update_StorageNode storageNode' (StorageNodes d)\<rparr>)))"

text \<open>What one pass of the loop does to a node.\<close>

definition probe_update :: "(StorageNode \<Rightarrow> probe) \<Rightarrow> StorageNode \<Rightarrow> StorageNode" where
  "probe_update net n =
     n\<lparr>sn_IsHealthy := fst (pingNode net n), sn_LastPing := Some (pr_now (net n)),
       sn_IsActive := True\<rparr>"

text \<open>
  Two registry rows that differ at most in the health fields (\<open>IsHealthy\<close>, \<open>LastPing\<close>),
  and at most in the health fields and the \<open>IsActive\<close> flag.
\<close>

definition health_only :: "StorageNode \<Rightarrow> StorageNode \<Rightarrow> bool" where
  "health_only n n' \<longleftrightarrow>
     n' = n\<lparr>sn_IsHealthy := sn_IsHealthy n', sn_LastPing := sn_LastPing n'\<rparr>"

definition health_and_active :: "StorageNode \<Rightarrow> StorageNode \<Rightarrow> bool" where
  "health_and_active n n' \<longleftrightarrow>
     n' = n\<lparr>sn_IsHealthy := sn_IsHealthy n', sn_LastPing := sn_LastPing n',
            sn_IsActive := sn_IsActive n'\<rparr>"

section \<open>Serving a file (FileController.ServeFile, src/Controllers/FileController.go)\<close>

record ServeRequest =
  rq_bucketId :: "uuid option"
  rq_fileId :: "uuid option"
  rq_apiKey :: string
  rq_signature :: string
  rq_width :: int
  rq_height :: int
  rq_quality :: int
  rq_resolution :: string

text \<open>
  What \<open>ServeFile\<close> gets from outside the tables of the model: the clock, whether the
  writes go through, the verdicts of \<open>validateAPIKey\<close> and of the JWT check, the result of
  \<open>processImage\<close> (bytes and MIME type, \<open>None\<close> on error), \<open>uuid.Parse\<close>, the answer of the
  node's \<open>/api/v1/internal/file\<close> (\<open>None\<close> when the request cannot be built or sent, else
  the status and the body, itself \<open>None\<close> when it cannot be read), and the local file
  behind \<open>c.SendFile\<close>. One request takes one reading of the clock.
\<close>

record serve_env =
  se_now :: time
  se_access_save_ok :: bool
  se_mark_update_ok :: bool
  se_mark_save_ok :: bool
  se_api_key_valid :: bool
  se_jwt_ok :: bool
  se_process_image :: "string \<Rightarrow> string \<Rightarrow> int \<Rightarrow> int \<Rightarrow> int \<Rightarrow> (string \<times> string) option"
  se_parse_uuid :: "string \<Rightarrow> uuid option"
  se_get_file :: "StorageNode \<Rightarrow> uuid \<Rightarrow> uuid \<Rightarrow> string \<Rightarrow> (nat \<times> string option) option"
  se_send_file :: "string \<Rightarrow> string option"

datatype fetch_error =
    InvalidNodeID
  | StorageNodeNotFound
  | FetchRequestFailed
  | NodeReturnedStatus nat
  | ReadFileDataFailed

datatype serve_response =
    JSONError nat string
  | Sent string string
  | SendFileFailed

datatype get_file_error = GetFileNotFound

definition update_File :: "File \<Rightarrow> File list \<Rightarrow> File list" where
  "update_File f rows = map (\<lambda>x. if f_Id x = f_Id f then f else x) rows"

text \<open>
  \<open>GetFileRequestHandler.Handle\<close> (src/Application/File/GetFileRequest.go): stamps
  \<open>AccessedAt\<close>; the error of its \<open>SaveChanges\<close> is dropped.
\<close>

definition GetFile ::
  "bool \<Rightarrow> time \<Rightarrow> db \<Rightarrow> uuid \<Rightarrow> uuid \<Rightarrow> (get_file_error + File) \<times> db" where
  "GetFile save_ok now d fileID bucketID =
    (case find (\<lambda>f. f_Id f = fileID \<and> f_BucketId f = bucketID) (Files d) of
       None \<Rightarrow> (Inl GetFileNotFound, d)
     | Some file \<Rightarrow>
         let file' = file\<lparr>f_AccessedAt := Some now\<rparr> in
         (Inr file', if save_ok then d\<lparr>Files := update_File file' (Files d)\<rparr> else d))"

text \<open>The access stamp of \<open>GetFile\<close> on the rows with the given id.\<close>

definition touch :: "uuid \<Rightarrow> time \<Rightarrow> File \<Rightarrow> File" where
  "touch fileID now x = (if f_Id x = fileID then x\<lparr>f_AccessedAt := Some now\<rparr> else x)"

definition fetchFileFromNode ::
  "serve_env \<Rightarrow> db \<Rightarrow> string \<Rightarrow> uuid \<Rightarrow> uuid \<Rightarrow> string \<Rightarrow> fetch_error + string" where
  "fetchFileFromNode env d nodeID bucketID fileID filename =
    (case se_parse_uuid env nodeID of
       None \<Rightarrow> Inl InvalidNodeID
     | Some nodeUUID \<Rightarrow>
    (case find (\<lambda>n. sn_Id n = nodeUUID) (StorageNodes d) of
       None \<Rightarrow> Inl StorageNodeNotFound
     | Some storageNode \<Rightarrow>
    (case se_get_file env storageNode bucketID fileID filename of
       None \<Rightarrow> Inl FetchRequestFailed
     | Some (status, body) \<Rightarrow>
         if status \<noteq> 200 then Inl (NodeReturnedStatus status)
         else (case body of
                 None \<Rightarrow> Inl ReadFileDataFailed
               | Some fileData \<Rightarrow> Inr fileData))))"

text \<open>
  The authentication block of \<open>ServeFile\<close>: \<open>Some\<close> response when the request is turned
  away, \<open>None\<close> when it may go on.
\<close>

definition serve_authorize ::
  "hmac_fn \<Rightarrow> Settings \<Rightarrow> serve_env \<Rightarrow> db \<Rightarrow> ServeRequest \<Rightarrow> bool
     \<Rightarrow> serve_response option \<times> db" where
  "serve_authorize hm st env d rq requiresAuth =
    (if requiresAuth then
       (let apiKey = rq_apiKey rq; signedToken = rq_signature rq in
        if signedToken \<noteq> [] then
          (case ValidateSignedURL hm st (se_now env) d signedToken of
             Inl e \<Rightarrow> (Some (JSONError 401 ''Invalid or expired signed URL''), d)
           | Inr signedURL \<Rightarrow>
               if su_SingleUse signedURL \<and> \<not> su_Used signedURL then
                 (case MarkSignatureAsUsed (se_mark_update_ok env) (se_mark_save_ok env)
                         (se_now env) d signedToken of
                    (Some e, d') \<Rightarrow> (Some (JSONError 500 ''Failed to mark signature as used''), d')
                  | (None, d') \<Rightarrow> (None, d'))
               else (None, d))
        else if apiKey \<noteq> [] then
          (if \<not> se_api_key_valid env
           then (Some (JSONError 401 ''Invalid or expired API key''), d)
           else (None, d))
        else
          (if \<not> se_jwt_ok env
           then (Some (JSONError 401
                   ''Authentication required. Use API key, signed URL, or JWT token.''), d)
           else (None, d)))
     else (None, d))"

text \<open>The resolution presets; \<open>strings.ToLower\<close> only matters for their one letter.\<close>

definition resolution_height :: "string \<Rightarrow> int option" where
  "resolution_height r =
     (if r = ''144p'' \<or> r = ''144P'' then Some 144
      else if r = ''240p'' \<or> r = ''240P'' then Some 240
      else if r = ''360p'' \<or> r = ''360P'' then Some 360
      else if r = ''480p'' \<or> r = ''480P'' then Some 480
      else if r = ''720p'' \<or> r = ''720P'' then Some 720
      else if r = ''1080p'' \<or> r = ''1080P'' then Some 1080
      else if r = ''1440p'' \<or> r = ''1440P'' then Some 1440
      else if r = ''2160p'' \<or> r = ''2160P'' \<or> r = ''4k'' \<or> r = ''4K'' then Some 2160
      else None)"

text \<open>
  The rest of \<open>ServeFile\<close>: image scaling when asked for, then the bytes, from the node
  named in a \<open>node://\<close> path or from the local disk.
\<close>

definition serve_content ::
  "serve_env \<Rightarrow> db \<Rightarrow> ServeRequest \<Rightarrow> uuid \<Rightarrow> uuid \<Rightarrow> File \<Rightarrow> serve_response" where
  "serve_content env d rq bucketID fileID fileInfo =
    (let resolution = rq_resolution rq;
         (width, height) =
           (case resolution_height resolution of
              None \<Rightarrow> (rq_width rq, rq_height rq)
            | Some h \<Rightarrow> (0, h));
         quality = rq_quality rq;
         isImage = prefix ''image/'' (f_MimeType fileInfo);
         needsProcessing =
           (isImage \<and> (width > 0 \<or> height > 0 \<or> resolution \<noteq> [] \<or> quality \<noteq> 85));
         original =
           (if prefix ''node://'' (f_Path fileInfo) then
              (let pathParts = split_sep (CHR ''/'') (TrimPrefix (f_Path fileInfo) ''node://'') in
               if length pathParts \<ge> 3 then
                 (case fetchFileFromNode env d (pathParts ! 0) bucketID fileID (f_Name fileInfo) of
                    Inl e \<Rightarrow> JSONError 500 ''Failed to fetch file from storage node''
                  | Inr fileData \<Rightarrow> Sent (f_MimeType fileInfo) fileData)
               else
                 (case se_send_file env (f_Path fileInfo) of
                    None \<Rightarrow> SendFileFailed
                  | Some fileData \<Rightarrow> Sent (f_MimeType fileInfo) fileData))
            else
              (case se_send_file env (f_Path fileInfo) of
                 None \<Rightarrow> SendFileFailed
               | Some fileData \<Rightarrow> Sent (f_MimeType fileInfo) fileData))
     in
     if needsProcessing then
       (case se_process_image env (f_Path fileInfo) (f_MimeType fileInfo) width height quality of
          None \<Rightarrow> original
        | Some (processedImage, outputMimeType) \<Rightarrow> Sent outputMimeType processedImage)
     else original)"

definition ServeFile ::
  "hmac_fn \<Rightarrow> Settings \<Rightarrow> serve_env \<Rightarrow> db \<Rightarrow> ServeRequest \<Rightarrow> serve_response \<times> db" where
  "ServeFile hm st env d rq =
    (case rq_bucketId rq of
       None \<Rightarrow> (JSONError 400 ''Invalid bucket ID'', d)
     | Some bucketID \<Rightarrow>
    (case rq_fileId rq of
       None \<Rightarrow> (JSONError 400 ''Invalid file ID'', d)
     | Some fileID \<Rightarrow>
    (case GetFile (se_access_save_ok env) (se_now env) d fileID bucketID of
       (Inl e, d1) \<Rightarrow> (JSONError 404 ''file not found'', d1)
     | (Inr fileInfo, d1) \<Rightarrow>
    (case find (\<lambda>b. b_Id b = bucketID) (Buckets d1) of
       None \<Rightarrow> (JSONError 404 ''Bucket not found'', d1)
     | Some bucket \<Rightarrow>
         let requiresAuth = \<not> b_PublicRead bucket in
         (case serve_authorize hm st env d1 rq requiresAuth of
            (Some refused, d2) \<Rightarrow> (refused, d2)
          | (None, d2) \<Rightarrow> (serve_content env d2 rq bucketID fileID fileInfo, d2))))))"

section \<open>Concrete data for the examples\<close>

text \<open>
  A stand-in for the keyed hash (any function of key and message will do for running the
  handlers on concrete inputs), one bucket, and builders for files, nodes and tokens.
\<close>

definition example_hmac :: hmac_fn where
  "example_hmac key msg = key @ ''#'' @ msg"

definition example_settings :: Settings where
  "example_settings = \<lparr>SignatureSecret = ''k'', BaseURL = ''http://m''\<rparr>"

definition example_rule :: AuthRule where
  "example_rule = \<lparr>ar_Type = ''none'', ar_Enabled = False, ar_Config = ''{}''\<rparr>"

definition example_bucket :: Bucket where
  "example_bucket =
     \<lparr>b_Id = ''b1'', b_Name = ''photos'', b_AuthRule = example_rule, b_PublicRead = False\<rparr>"

definition example_file :: "uuid \<Rightarrow> string \<Rightarrow> int64 \<Rightarrow> File" where
  "example_file fid path sz =
     \<lparr>f_Id = fid, f_BucketId = ''b1'', f_Name = ''cat.png'', f_OriginalName = ''cat.png'',
      f_Path = path, f_Size = sz, f_MimeType = ''image/png'', f_Checksum = ''c'',
      f_Version = 1, f_AuthRule = example_rule, f_CustomMetadata = Map.empty,
      f_UploadedBy = ''u1'', f_AccessedAt = None\<rparr>"

definition example_node :: "uuid \<Rightarrow> bool \<Rightarrow> int64 \<Rightarrow> int64 \<Rightarrow> StorageNode" where
  "example_node nid active max_storage used =
     \<lparr>sn_Id = nid, sn_Name = nid, sn_URL = ''http://'' @ nid, sn_AuthKey = ''key-'' @ nid,
      sn_IsActive = active, sn_IsHealthy = True, sn_Priority = 0,
      sn_MaxStorage = max_storage, sn_UsedStorage = used, sn_LastPing = None\<rparr>"

definition example_master :: SetupConfig where
  "example_master =
     \<lparr>sc_SetupType = ''master'', sc_StoragePath = ''/data'', sc_MaxStorage = 1000\<rparr>"

definition example_db :: "File list \<Rightarrow> StorageNode list \<Rightarrow> SignedURL list \<Rightarrow> db" where
  "example_db fs ns us =
     \<lparr>SetupConfigs = [example_master], Files = fs, Buckets = [example_bucket],
      StorageNodes = ns, SignedURLs = us\<rparr>"

definition example_token :: "string \<Rightarrow> time \<Rightarrow> bool \<Rightarrow> bool \<Rightarrow> SignedURL" where
  "example_token sig expires single used =
     \<lparr>su_Signature = sig, su_BucketName = ''photos'', su_FileName = ''cat.png'',
      su_Method = ''GET'', su_ExpiresAt = expires, su_SingleUse = single, su_Used = used,
      su_UsedAt = None\<rparr>"


definition example_upload_env :: "bool \<Rightarrow> upload_env" where
  "example_upload_env file_save_ok =
     \<lparr>ue_new_uuid = ''f9'', ue_read_all = Some ''bytes'', ue_post_upload = (\<lambda>n. Some 201),
      ue_node_save_ok = True, ue_bucket_read_ok = True, ue_mkdir_ok = True, ue_write_ok = True,
      ue_marshal_ok = True,
      ue_file_save_ok = file_save_ok, ue_sha256 = (\<lambda>s. ''sha:'' @ s)\<rparr>"

definition example_upload :: "int64 \<Rightarrow> DistributedUploadCommand" where
  "example_upload sz =
     \<lparr>uc_BucketID = ''b1'', uc_FileSize = sz, uc_FileName = ''dog.png'',
      uc_ContentType = ''image/png'', uc_Metadata = None, uc_UploadedBy = ''u1''\<rparr>"

definition example_world :: "File list \<Rightarrow> StorageNode list \<Rightarrow> world" where
  "example_world fs ns = \<lparr>w_db = example_db fs ns [], w_disk = Map.empty\<rparr>"

definition example_probe :: "StorageNode \<Rightarrow> probe" where
  "example_probe n = \<lparr>pr_status = Some 200, pr_response_ms = 5, pr_now = 77\<rparr>"

definition example_request :: ServeRequest where
  "example_request =
     \<lparr>rq_bucketId = Some ''b1'', rq_fileId = Some ''f1'', rq_apiKey = [],
      rq_signature = ''k#b1:f1'', rq_width = 0, rq_height = 0, rq_quality = 85,
      rq_resolution = []\<rparr>"

definition example_serve_env :: "time \<Rightarrow> serve_env" where
  "example_serve_env now =
     \<lparr>se_now = now, se_access_save_ok = True, se_mark_update_ok = True, se_mark_save_ok = True,
      se_api_key_valid = False, se_jwt_ok = False,
      se_process_image = (\<lambda>path mime w h q. None), se_parse_uuid = Some,
      se_get_file = (\<lambda>node bucketID fileID filename. Some (503, None)),
      se_send_file = (\<lambda>path. None)\<rparr>"

section \<open>Properties of the capability tokens\<close>

lemma find_in_set: "find P xs = Some x \<Longrightarrow> x \<in> set xs \<and> P x"
  by (auto simp: find_Some_iff)

lemma find_update_SignedURL:
  "find (\<lambda>r. su_Signature r = s) (update_SignedURL r' rows) =
     (case find (\<lambda>r. su_Signature r = s) rows of
        None \<Rightarrow> None
      | Some r \<Rightarrow> Some (if su_Signature r = su_Signature r' then r' else r))"
  by (induction rows) (auto simp: update_SignedURL_def)



lemma validate_Inr_row:
  assumes "ValidateSignedURL hm st t d signature = Inr r"
  shows "find (\<lambda>r. su_Signature r = signature) (SignedURLs d) = Some r"
    and "\<not> su_ExpiresAt r < t" and "\<not> (su_SingleUse r \<and> su_Used r)"
    and "su_Signature r = signature"
  using assms
  by (auto simp: ValidateSignedURL_def Let_def split: option.splits if_splits dest: find_Some_iff[THEN iffD1])

lemma validate_time_mono:
  assumes "ValidateSignedURL hm st t d signature = Inr r" and "\<not> su_ExpiresAt r < t'"
  shows "ValidateSignedURL hm st t' d signature = Inr r"
  using assms
  by (auto simp: ValidateSignedURL_def Let_def split: option.splits if_splits)

lemma mark_multi_use_noop:
  assumes "find (\<lambda>r. su_Signature r = signature) (SignedURLs d) = Some r" and "\<not> su_SingleUse r"
  shows "MarkSignatureAsUsed uok sok t d signature = (None, d)"
  using assms by (simp add: MarkSignatureAsUsed_def)

lemma run_multi_use_noop:
  assumes "find (\<lambda>r. su_Signature r = signature) (SignedURLs d) = Some r" and "\<not> su_SingleUse r"
  shows "run_token_calls signature calls d = d"
  using assms
proof (induction calls)
  case Nil
  then show ?case by simp
next
  case (Cons c calls)
  then show ?case by (cases c) (simp_all add: mark_multi_use_noop)
qed

lemma consumed_validate:
  "consumed signature e d \<Longrightarrow>
     ValidateSignedURL hm st t d signature =
       (if e < t then Inl SignatureExpired else Inl SignatureAlreadyUsed)"
  by (auto simp: consumed_def ValidateSignedURL_def split: option.splits)

lemma mark_consumes:
  assumes "find (\<lambda>r. su_Signature r = signature) (SignedURLs d) = Some r" and "su_SingleUse r"
    and "MarkSignatureAsUsed uok sok t d signature = (None, d')"
  shows "consumed signature (su_ExpiresAt r) d'"
proof -
  have sig: "su_Signature r = signature"
    using assms(1) by (auto simp: find_Some_iff)
  from assms have d': "d' = d\<lparr>SignedURLs :=
      update_SignedURL (r\<lparr>su_Used := True, su_UsedAt := Some t\<rparr>) (SignedURLs d)\<rparr>"
    by (auto simp: MarkSignatureAsUsed_def split: if_splits)
  show ?thesis
    unfolding consumed_def d' using assms(1,2) sig
    by (simp add: find_update_SignedURL)
qed

lemma consumed_mark:
  assumes "consumed signature e d"
  shows "consumed signature e (snd (MarkSignatureAsUsed uok sok t d signature))"
proof -
  from assms obtain r where r: "find (\<lambda>r. su_Signature r = signature) (SignedURLs d) = Some r"
    "su_SingleUse r" "su_Used r" "su_ExpiresAt r = e"
    by (auto simp: consumed_def split: option.splits)
  have sig: "su_Signature r = signature"
    using r(1) by (auto simp: find_Some_iff)
  show ?thesis
  proof (cases "uok \<and> sok")
    case True
    then have "MarkSignatureAsUsed uok sok t d signature = (None, snd (MarkSignatureAsUsed uok sok t d signature))"
      using r by (simp add: MarkSignatureAsUsed_def)
    from mark_consumes[OF r(1) r(2) this] r(4) show ?thesis by simp
  next
    case False
    then have "snd (MarkSignatureAsUsed uok sok t d signature) = d"
      using r by (auto simp: MarkSignatureAsUsed_def)
    then show ?thesis using assms by simp
  qed
qed

lemma consumed_run:
  "consumed signature e d \<Longrightarrow> consumed signature e (run_token_calls signature calls d)"
proof (induction calls arbitrary: d)
  case Nil
  then show ?case by simp
next
  case (Cons c calls)
  then show ?case by (cases c) (simp_all add: consumed_mark)
qed

text \<open>
  Claim C8. Let a first validation of a signature succeed with row \<open>r\<close>. If \<open>r\<close> is
  single-use and \<open>MarkSignatureAsUsed\<close> then succeeds, every later validation fails,
  whatever further validate and mark-used calls come in between: with "already used" as
  long as the token has not expired, with "expired" afterwards. If \<open>r\<close> is not single-use,
  \<open>MarkSignatureAsUsed\<close> succeeds without changing the database (so \<open>Used\<close> stays as it
  was), any run of validate and mark-used calls leaves the database as it is, and
  validation keeps returning \<open>r\<close> at every time up to its expiry.
\<close>

theorem single_use_consumed_multi_use_kept:
  assumes v: "ValidateSignedURL hm st t1 d signature = Inr r"
  shows "(su_SingleUse r \<longrightarrow>
           (\<forall>uok sok t2 d' calls t3.
              MarkSignatureAsUsed uok sok t2 d signature = (None, d') \<longrightarrow>
              ValidateSignedURL hm st t3 (run_token_calls signature calls d') signature =
                (if su_ExpiresAt r < t3 then Inl SignatureExpired else Inl SignatureAlreadyUsed)))
       \<and> (\<not> su_SingleUse r \<longrightarrow>
           (\<forall>uok sok t2 calls t3.
              MarkSignatureAsUsed uok sok t2 d signature = (None, d)
              \<and> run_token_calls signature calls d = d
              \<and> (\<not> su_ExpiresAt r < t3 \<longrightarrow>
                   ValidateSignedURL hm st t3 (run_token_calls signature calls d) signature = Inr r)))"
proof (intro conjI impI allI)
  fix uok sok t2 d' calls t3
  assume "su_SingleUse r" and "MarkSignatureAsUsed uok sok t2 d signature = (None, d')"
  with validate_Inr_row(1)[OF v] have "consumed signature (su_ExpiresAt r) d'"
    by (rule mark_consumes)
  then have "consumed signature (su_ExpiresAt r) (run_token_calls signature calls d')"
    by (rule consumed_run)
  then show "ValidateSignedURL hm st t3 (run_token_calls signature calls d') signature =
                (if su_ExpiresAt r < t3 then Inl SignatureExpired else Inl SignatureAlreadyUsed)"
    by (rule consumed_validate)
next
  fix uok sok t2 calls t3
  assume m: "\<not> su_SingleUse r"
  show "MarkSignatureAsUsed uok sok t2 d signature = (None, d)"
    using validate_Inr_row(1)[OF v] m by (rule mark_multi_use_noop)
  show run: "run_token_calls signature calls d = d"
    using validate_Inr_row(1)[OF v] m by (rule run_multi_use_noop)
  assume "\<not> su_ExpiresAt r < t3"
  with v show "ValidateSignedURL hm st t3 (run_token_calls signature calls d) signature = Inr r"
    unfolding run by (rule validate_time_mono)
qed

theorem single_use_consumed_multi_use_kept_witness:
  "ValidateSignedURL example_hmac example_settings 10
     (example_db [example_file ''f1'' ''/data/photos/f1'' 100] []
        [example_token ''k#b1:f1'' 60 True False]) ''k#b1:f1''
     = Inr (example_token ''k#b1:f1'' 60 True False)
   \<and> MarkSignatureAsUsed True True 11
     (example_db [example_file ''f1'' ''/data/photos/f1'' 100] []
        [example_token ''k#b1:f1'' 60 True False]) ''k#b1:f1''
     = (None, example_db [example_file ''f1'' ''/data/photos/f1'' 100] []
        [(example_token ''k#b1:f1'' 60 True True)\<lparr>su_UsedAt := Some 11\<rparr>])
   \<and> ValidateSignedURL example_hmac example_settings 12
     (run_token_calls ''k#b1:f1'' [Validate 12, MarkUsed True True 12]
       (example_db [example_file ''f1'' ''/data/photos/f1'' 100] []
         [(example_token ''k#b1:f1'' 60 True True)\<lparr>su_UsedAt := Some 11\<rparr>])) ''k#b1:f1''
     = Inl SignatureAlreadyUsed
   \<and> ValidateSignedURL example_hmac example_settings 10
     (example_db [example_file ''f1'' ''/data/photos/f1'' 100] []
        [example_token ''k#b1:f1'' 60 False False]) ''k#b1:f1''
     = Inr (example_token ''k#b1:f1'' 60 False False)
   \<and> ValidateSignedURL example_hmac example_settings 60
     (run_token_calls ''k#b1:f1'' [MarkUsed True True 11, Validate 12, MarkUsed True True 13]
       (example_db [example_file ''f1'' ''/data/photos/f1'' 100] []
         [example_token ''k#b1:f1'' 60 False False])) ''k#b1:f1''
     = Inr (example_token ''k#b1:f1'' 60 False False)"
proof -
  let ?d = "\<lambda>single. example_db [example_file ''f1'' ''/data/photos/f1'' 100] []
        [example_token ''k#b1:f1'' 60 single False]"
  have v1: "ValidateSignedURL example_hmac example_settings 10 (?d True) ''k#b1:f1''
      = Inr (example_token ''k#b1:f1'' 60 True False)"
    by (simp add: ValidateSignedURL_def example_hmac_def example_settings_def example_db_def
        example_file_def example_token_def example_bucket_def)
  have m: "MarkSignatureAsUsed True True 11 (?d True) ''k#b1:f1''
      = (None, example_db [example_file ''f1'' ''/data/photos/f1'' 100] []
        [(example_token ''k#b1:f1'' 60 True True)\<lparr>su_UsedAt := Some 11\<rparr>])"
    by (simp add: MarkSignatureAsUsed_def update_SignedURL_def example_db_def example_token_def)
  have v2: "ValidateSignedURL example_hmac example_settings 10 (?d False) ''k#b1:f1''
      = Inr (example_token ''k#b1:f1'' 60 False False)"
    by (simp add: ValidateSignedURL_def example_hmac_def example_settings_def example_db_def
        example_file_def example_token_def example_bucket_def)
  have single: "su_SingleUse (example_token ''k#b1:f1'' 60 True False)"
    and multi: "\<not> su_SingleUse (example_token ''k#b1:f1'' 60 False False)"
    by (simp_all add: example_token_def)
  from single_use_consumed_multi_use_kept[OF v1, THEN conjunct1, rule_format, OF single m,
      where calls = "[Validate 12, MarkUsed True True 12]" and ?t3.0 = 12]
  have "ValidateSignedURL example_hmac example_settings 12
     (run_token_calls ''k#b1:f1'' [Validate 12, MarkUsed True True 12]
       (example_db [example_file ''f1'' ''/data/photos/f1'' 100] []
         [(example_token ''k#b1:f1'' 60 True True)\<lparr>su_UsedAt := Some 11\<rparr>])) ''k#b1:f1''
     = Inl SignatureAlreadyUsed"
    by (simp add: example_token_def)
  moreover
  from single_use_consumed_multi_use_kept[OF v2, THEN conjunct2, rule_format, OF multi,
      THEN conjunct2, THEN conjunct2, rule_format,
      where calls = "[MarkUsed True True 11, Validate 12, MarkUsed True True 13]" and ?t3.0 = 60]
  have "ValidateSignedURL example_hmac example_settings 60
     (run_token_calls ''k#b1:f1'' [MarkUsed True True 11, Validate 12, MarkUsed True True 13]
       (?d False)) ''k#b1:f1''
     = Inr (example_token ''k#b1:f1'' 60 False False)"
    by (simp add: example_token_def)
  ultimately show ?thesis using v1 m v2 by simp
qed







text \<open>
  Claim C7, as the code has it. \<open>ValidateSignedURL\<close> writes nothing: for a token whose
  expiry is in the past it fails with "expired" and the row stays stored, so every later
  validation of the same signature fails with "expired" again, not with "not found".
\<close>

theorem validate_expired_keeps_row:
  assumes "find (\<lambda>r. su_Signature r = signature) (SignedURLs d) = Some r"
    and "su_ExpiresAt r < now"
  shows "ValidateSignedURL hm st now d signature = Inl SignatureExpired
     \<and> (\<forall>later. now \<le> later \<longrightarrow> ValidateSignedURL hm st later d signature = Inl SignatureExpired)"
  using assms by (auto simp: ValidateSignedURL_def)

theorem validate_expired_keeps_row_witness:
  "ValidateSignedURL example_hmac example_settings 61
     (example_db [example_file ''f1'' ''/data/photos/f1'' 100] []
        [example_token ''k#b1:f1'' 60 False False]) ''k#b1:f1'' = Inl SignatureExpired
   \<and> ValidateSignedURL example_hmac example_settings 62
     (example_db [example_file ''f1'' ''/data/photos/f1'' 100] []
        [example_token ''k#b1:f1'' 60 False False]) ''k#b1:f1'' = Inl SignatureExpired"
  using validate_expired_keeps_row[of "''k#b1:f1''"
      "example_db [example_file ''f1'' ''/data/photos/f1'' 100] []
        [example_token ''k#b1:f1'' 60 False False]"
      "example_token ''k#b1:f1'' 60 False False" 61 example_hmac example_settings]
  by (simp add: example_db_def example_token_def)

text \<open>
  The claim C7 as stated fails: validating an expired token twice gives "expired" both
  times; the second validation does not report "not found", because the row is still there.
\<close>

theorem validate_expired_row_not_deleted:
  "ValidateSignedURL example_hmac example_settings 61
     (example_db [example_file ''f1'' ''/data/photos/f1'' 100] []
        [example_token ''k#b1:f1'' 60 False False]) ''k#b1:f1'' = Inl SignatureExpired
   \<and> ValidateSignedURL example_hmac example_settings 61
     (example_db [example_file ''f1'' ''/data/photos/f1'' 100] []
        [example_token ''k#b1:f1'' 60 False False]) ''k#b1:f1'' \<noteq> Inl SignatureNotFoundInDatabase
   \<and> find (\<lambda>r. su_Signature r = ''k#b1:f1'')
       (SignedURLs (example_db [example_file ''f1'' ''/data/photos/f1'' 100] []
        [example_token ''k#b1:f1'' 60 False False]))
     = Some (example_token ''k#b1:f1'' 60 False False)"
  by (simp add: ValidateSignedURL_def example_db_def example_token_def)

text \<open>
  Claim C6. Validation fails with "not found" exactly when no stored row carries the
  signature, so a signature changed in one character is not found unless the changed
  string is itself stored. Validation fails with "integrity check failed" exactly when a row is stored under the signature,
  the row has not expired, it is not a used single-use row, its bucket name and file name
  resolve to a bucket and a file, and the keyed hash of their ids differs from the
  signature.
\<close>

theorem validate_error_kinds:
  "(ValidateSignedURL hm st now d signature = Inl SignatureNotFoundInDatabase \<longleftrightarrow>
      signature \<notin> su_Signature ` set (SignedURLs d))
   \<and> (ValidateSignedURL hm st now d signature = Inl IntegrityCheckFailed \<longleftrightarrow>
       (\<exists>r b f. find (\<lambda>r. su_Signature r = signature) (SignedURLs d) = Some r
          \<and> \<not> su_ExpiresAt r < now
          \<and> \<not> (su_SingleUse r \<and> su_Used r)
          \<and> find (\<lambda>b. b_Name b = su_BucketName r) (Buckets d) = Some b
          \<and> find (\<lambda>f. f_Name f = su_FileName r \<and> f_BucketId f = b_Id b) (Files d) = Some f
          \<and> hm (SignatureSecret st) (b_Id b @ '':'' @ f_Id f) \<noteq> signature))"
proof (intro conjI)
  have none: "find (\<lambda>r. su_Signature r = signature) (SignedURLs d) = None \<longleftrightarrow>
      signature \<notin> su_Signature ` set (SignedURLs d)"
    by (auto simp: find_None_iff)
  show "ValidateSignedURL hm st now d signature = Inl SignatureNotFoundInDatabase \<longleftrightarrow>
      signature \<notin> su_Signature ` set (SignedURLs d)"
    unfolding none[symmetric]
    by (auto simp: ValidateSignedURL_def Let_def split: option.splits if_splits)
  show "ValidateSignedURL hm st now d signature = Inl IntegrityCheckFailed \<longleftrightarrow>
       (\<exists>r b f. find (\<lambda>r. su_Signature r = signature) (SignedURLs d) = Some r
          \<and> \<not> su_ExpiresAt r < now
          \<and> \<not> (su_SingleUse r \<and> su_Used r)
          \<and> find (\<lambda>b. b_Name b = su_BucketName r) (Buckets d) = Some b
          \<and> find (\<lambda>f. f_Name f = su_FileName r \<and> f_BucketId f = b_Id b) (Files d) = Some f
          \<and> hm (SignatureSecret st) (b_Id b @ '':'' @ f_Id f) \<noteq> signature)"
    by (auto simp: ValidateSignedURL_def Let_def split: option.splits if_splits)
qed

text \<open>
  The file \<open>cat.png\<close> was uploaded again under a new id \<open>f2\<close> after a token was issued
  for \<open>f1\<close>: the stored signature no longer matches and validation reports the integrity
  failure; the same signature with its last character changed is not found.
\<close>

theorem validate_error_kinds_witness:
  "ValidateSignedURL example_hmac example_settings 10
     (example_db [example_file ''f2'' ''/data/photos/f2'' 100] []
        [example_token ''k#b1:f1'' 60 False False]) ''k#b1:f1'' = Inl IntegrityCheckFailed
   \<and> ValidateSignedURL example_hmac example_settings 10
     (example_db [example_file ''f2'' ''/data/photos/f2'' 100] []
        [example_token ''k#b1:f1'' 60 False False]) ''k#b1:f9'' = Inl SignatureNotFoundInDatabase"
proof -
  let ?d = "example_db [example_file ''f2'' ''/data/photos/f2'' 100] []
        [example_token ''k#b1:f1'' 60 False False]"
  have "\<exists>r b f. find (\<lambda>r. su_Signature r = ''k#b1:f1'') (SignedURLs ?d) = Some r
          \<and> \<not> su_ExpiresAt r < 10
          \<and> \<not> (su_SingleUse r \<and> su_Used r)
          \<and> find (\<lambda>b. b_Name b = su_BucketName r) (Buckets ?d) = Some b
          \<and> find (\<lambda>f. f_Name f = su_FileName r \<and> f_BucketId f = b_Id b) (Files ?d) = Some f
          \<and> example_hmac (SignatureSecret example_settings) (b_Id b @ '':'' @ f_Id f) \<noteq> ''k#b1:f1''"
    by (simp add: example_db_def example_token_def example_bucket_def example_file_def
        example_hmac_def example_settings_def)
  moreover have "''k#b1:f9'' \<notin> su_Signature ` set (SignedURLs ?d)"
    by (simp add: example_db_def example_token_def)
  ultimately show ?thesis
    using validate_error_kinds[of example_hmac example_settings 10 ?d "''k#b1:f1''"]
      validate_error_kinds[of example_hmac example_settings 10 ?d "''k#b1:f9''"]
    by blast
qed

section \<open>Properties of paths\<close>

lemma split_sep_nonempty: "split_sep c s \<noteq> []"
  by (induction s) (auto split: list.splits)

lemma split_sep_no_sep: "e \<in> set (split_sep c s) \<Longrightarrow> c \<notin> set e"
proof (induction s arbitrary: e)
  case Nil
  then show ?case by simp
next
  case (Cons x xs)
  then show ?case
    by (cases "split_sep c xs") (auto split: if_splits)
qed

lemma clean_step_plain:
  assumes "plain_elems acc" and "CHR ''/'' \<notin> set e"
  shows "plain_elems (clean_step rooted acc e)"
  using assms
  by (auto simp: plain_elems_def clean_step_def split: list.splits)

lemma foldl_clean_step_plain:
  assumes "plain_elems acc" and "\<forall>e\<in>set es. CHR ''/'' \<notin> set e"
  shows "plain_elems (foldl (clean_step rooted) acc es)"
  using assms
proof (induction es arbitrary: acc)
  case Nil
  then show ?case by simp
next
  case (Cons e es)
  then show ?case by (simp add: clean_step_plain)
qed

lemma join_sep_hd:
  assumes "es \<noteq> []" and "plain_elems es"
  shows "join_sep es \<noteq> [] \<and> hd (join_sep es) = hd (hd es)"
  using assms
  by (induction es rule: join_sep.induct) (auto simp: plain_elems_def)

lemma join_sep_not_node:
  assumes "plain_elems es"
  shows "\<not> prefix ''node://'' (join_sep es)"
proof (cases es rule: join_sep.cases)
  case 1
  then show ?thesis by simp
next
  case (2 x)
  show ?thesis
  proof
    assume "prefix ''node://'' (join_sep es)"
    then obtain t where "x = ''node://'' @ t"
      using 2 by (auto simp: prefix_def)
    then have "CHR ''/'' \<in> set x" by simp
    with assms 2 show False by (simp add: plain_elems_def)
  qed
next
  case (3 x y ys)
  define rest where "rest = join_sep (y # ys)"
  have x: "CHR ''/'' \<notin> set x" and rest_elems: "plain_elems (y # ys)"
    using assms 3 by (auto simp: plain_elems_def)
  from join_sep_hd[OF _ rest_elems] have rest: "rest \<noteq> []" "hd rest = hd y"
    by (simp_all add: rest_def)
  have y: "hd y \<noteq> CHR ''/''"
    using rest_elems by (cases y) (auto simp: plain_elems_def)
  show ?thesis
  proof
    assume "prefix ''node://'' (join_sep es)"
    then obtain t where eq: "x @ CHR ''/'' # rest = ''node:'' @ CHR ''/'' # CHR ''/'' # t"
      using 3 by (auto simp: prefix_def rest_def)
    have "takeWhile (\<lambda>c. c \<noteq> CHR ''/'') (x @ CHR ''/'' # rest) = x"
      using x by (auto simp: takeWhile_tail)
    moreover have "takeWhile (\<lambda>c. c \<noteq> CHR ''/'') (''node:'' @ CHR ''/'' # CHR ''/'' # t) = ''node:''"
      by simp
    ultimately have "x = ''node:''" using eq by simp
    with eq have "rest = CHR ''/'' # t" by simp
    with rest y show False by simp
  qed
qed

lemma filepath_Clean_not_node: "\<not> prefix ''node://'' (filepath_Clean p)"
proof (cases "p = []")
  case True
  then show ?thesis by (simp add: filepath_Clean_def)
next
  case False
  define rooted where "rooted = (hd p = CHR ''/'')"
  define elems where "elems = rev (foldl (clean_step rooted) [] (split_sep (CHR ''/'') p))"
  have "plain_elems (foldl (clean_step rooted) [] (split_sep (CHR ''/'') p))"
    by (rule foldl_clean_step_plain) (auto simp: plain_elems_def dest: split_sep_no_sep)
  then have "plain_elems elems"
    by (simp add: elems_def plain_elems_def)
  then have "\<not> prefix ''node://'' (join_sep elems)"
    by (rule join_sep_not_node)
  then show ?thesis
    using False unfolding filepath_Clean_def Let_def rooted_def[symmetric] elems_def[symmetric]
    by (auto simp: prefix_def)
qed

lemma filepath_Join_not_node: "\<not> prefix ''node://'' (filepath_Join es)"
  by (simp add: filepath_Join_def Let_def filepath_Clean_not_node)

section \<open>Properties of the placement\<close>

lemma master_free_space_handler:
  "sc_MaxStorage mc - SumField_Size (Files d) = master_free_space d mc"
  by (simp add: master_free_space_def)

lemma store_payload_db:
  "store_payload env w command mc bucket fileID sn = Inr (p, c, w1) \<Longrightarrow> w_db w1 = w_db w"
  by (auto simp: store_payload_def Let_def split: option.splits if_splits)

lemma store_payload_node:
  "store_payload env w command mc bucket fileID (Some sn) =
     Inr (''node://'' @ snr_ID sn @ ''/'' @ uc_BucketID command @ ''/'' @ fileID, ''stored-on-node'', w)"
  by (simp add: store_payload_def)

lemma store_payload_local:
  "store_payload env w command mc bucket fileID None = Inr (p, c, w1) \<Longrightarrow>
     p = filepath_Join [filepath_Join [sc_StoragePath mc, b_Name bucket], fileID]
     \<and> ue_read_all env \<noteq> None
     \<and> w1 = w\<lparr>w_disk := (w_disk w)(p := ue_read_all env)\<rparr>"
  by (auto simp: store_payload_def Let_def split: option.splits if_splits)

lemma create_file_record_nodes:
  "StorageNodes (w_db (snd (create_file_record env w command mc fileID fileSize sn))) =
     StorageNodes (w_db w)"
  by (auto simp: create_file_record_def Let_def dest: store_payload_db
      split: option.splits sum.splits if_splits prod.splits)

lemma create_file_record_error:
  "create_file_record env w command mc fileID fileSize sn = (Inl e, w') \<Longrightarrow>
     w_db w' = w_db w"
  by (auto simp: create_file_record_def Let_def dest: store_payload_db
      split: option.splits sum.splits if_splits prod.splits)

lemma create_file_record_success:
  assumes "create_file_record env w command mc fileID fileSize sn = (Inr resp, w')"
  shows "w_db w' = (w_db w)\<lparr>Files := Files (w_db w) @ [ur_File resp]\<rparr>"
    and "ur_StorageNode resp = sn"
    and "f_Id (ur_File resp) = fileID" and "f_Size (ur_File resp) = fileSize"
    and "f_BucketId (ur_File resp) = uc_BucketID command"
  using assms
  by (auto simp: create_file_record_def Let_def dest: store_payload_db
      split: option.splits sum.splits if_splits prod.splits)

lemma create_file_record_success_node:
  assumes "create_file_record env w command mc fileID fileSize (Some sn) = (Inr resp, w')"
  shows "f_Path (ur_File resp) = ''node://'' @ snr_ID sn @ ''/'' @ uc_BucketID command @ ''/'' @ fileID"
    and "w_disk w' = w_disk w"
  using assms
  by (auto simp: create_file_record_def Let_def store_payload_node
      split: option.splits sum.splits if_splits prod.splits)

lemma create_file_record_success_local:
  assumes "create_file_record env w command mc fileID fileSize None = (Inr resp, w')"
  shows "\<exists>bucket. find (\<lambda>b. b_Id b = uc_BucketID command) (Buckets (w_db w)) = Some bucket
      \<and> f_Path (ur_File resp) = filepath_Join [filepath_Join [sc_StoragePath mc, b_Name bucket], fileID]
      \<and> ue_read_all env \<noteq> None
      \<and> w_disk w' = (w_disk w)(f_Path (ur_File resp) := ue_read_all env)"
  using assms
  by (auto simp: create_file_record_def Let_def dest!: store_payload_local
      split: option.splits sum.splits if_splits prod.splits)

lemma create_file_record_runs_node:
  assumes "find (\<lambda>b. b_Id b = uc_BucketID command) (Buckets (w_db w)) = Some bucket"
    and "ue_bucket_read_ok env" and "ue_marshal_ok env" and "ue_file_save_ok env"
  shows "\<exists>resp w'. create_file_record env w command mc fileID fileSize (Some sn) = (Inr resp, w')"
  using assms
  by (simp add: create_file_record_def Let_def store_payload_node)

lemma create_file_record_runs_local:
  assumes "find (\<lambda>b. b_Id b = uc_BucketID command) (Buckets (w_db w)) = Some bucket"
    and "sc_StoragePath mc \<noteq> []" and "ue_mkdir_ok env" and "ue_read_all env = Some content"
    and "ue_write_ok env" and "ue_marshal_ok env" and "ue_file_save_ok env"
    and "ue_bucket_read_ok env"
  shows "\<exists>resp w'. create_file_record env w command mc fileID fileSize None = (Inr resp, w')"
  using assms
  by (simp add: create_file_record_def Let_def store_payload_def)

text \<open>The handler's figure is the local free space less the bytes held by nodes.\<close>

lemma SumField_Size_split:
  "SumField_Size fs = SumField_Size (filter (\<lambda>f. \<not> P f) fs) + SumField_Size (filter P fs)"
  by (induction fs) (simp_all add: SumField_Size_def)

lemma master_free_space_split:
  "master_free_space d mc =
     local_free_space d mc - SumField_Size (filter stored_on_node (Files d))"
  using SumField_Size_split[of "Files d" stored_on_node]
  by (simp add: master_free_space_def local_free_space_def)

text \<open>
  The two refusals of the node branch: no active and healthy node, or the first such node
  short of room. Nothing is written, and no other node is looked at.
\<close>

lemma upload_no_eligible_node:
  assumes "find (\<lambda>c. sc_SetupType c = ''master'') (SetupConfigs (w_db w)) = Some mc"
    and "master_free_space (w_db w) mc <s uc_FileSize command"
    and "find (\<lambda>n. sn_IsActive n \<and> sn_IsHealthy n) (StorageNodes (w_db w)) = None"
  shows "DistributedUpload env w command = (Inl NoActiveStorageNodes, w)"
  using assms by (simp add: DistributedUpload_def Let_def master_free_space_def)

lemma upload_first_node_full:
  assumes "find (\<lambda>c. sc_SetupType c = ''master'') (SetupConfigs (w_db w)) = Some mc"
    and "master_free_space (w_db w) mc <s uc_FileSize command"
    and "find (\<lambda>n. sn_IsActive n \<and> sn_IsHealthy n) (StorageNodes (w_db w)) = Some node"
    and "sn_MaxStorage node - sn_UsedStorage node <s uc_FileSize command"
  shows "DistributedUpload env w command = (Inl NoStorageSpaceAvailable, w)"
  using assms by (simp add: DistributedUpload_def Let_def master_free_space_def)

lemma DistributedUpload_local:
  assumes "find (\<lambda>c. sc_SetupType c = ''master'') (SetupConfigs (w_db w)) = Some mc"
    and "\<not> master_free_space (w_db w) mc <s uc_FileSize command"
  shows "DistributedUpload env w command =
     create_file_record env w command mc (ue_new_uuid env) (uc_FileSize command) None"
  using assms
  by (simp add: DistributedUpload_def Let_def master_free_space_handler)

lemma uploadToNode_bucket:
  "uploadToNode env d node command fileID = Inr ok \<Longrightarrow>
     \<exists>bucket. find (\<lambda>b. b_Id b = uc_BucketID command) (Buckets d) = Some bucket"
  by (auto simp: uploadToNode_def split: option.splits)

lemma DistributedUpload_node:
  assumes "find (\<lambda>c. sc_SetupType c = ''master'') (SetupConfigs (w_db w)) = Some mc"
    and "master_free_space (w_db w) mc <s uc_FileSize command"
    and "find (\<lambda>n. sn_IsActive n \<and> sn_IsHealthy n) (StorageNodes (w_db w)) = Some node"
    and "\<not> sn_MaxStorage node - sn_UsedStorage node <s uc_FileSize command"
    and "uploadToNode env (w_db w) node command (ue_new_uuid env) = Inr True"
  shows "DistributedUpload env w command =
     create_file_record env
       (if ue_node_save_ok env
        then w\<lparr>w_db := (w_db w)\<lparr>StorageNodes := update_StorageNode
               (node\<lparr>sn_UsedStorage := sn_UsedStorage node + uc_FileSize command\<rparr>)
               (StorageNodes (w_db w))\<rparr>\<rparr>
        else w)
       command mc (ue_new_uuid env) (uc_FileSize command)
       (Some (StorageNodeResponse_of (node\<lparr>sn_UsedStorage := sn_UsedStorage node + uc_FileSize command\<rparr>)))"
  using assms
  by (simp add: DistributedUpload_def Let_def master_free_space_handler)

text \<open>
  Local placement. When the declared size is at most the free space as the handler computes
  it (the ceiling minus the sizes of all records), the handler never touches the node
  registry, whatever the outcome. Every
  object record it creates is local: the response names no node, the record's path is
  \<open>filepath.Join\<close> of storage path, bucket name and the fresh id, which never starts with
  \<open>node://\<close>, the bytes are on the master's disk under that path, and the record is the one
  row added to the table. The upload does create the record when the bucket exists, the
  storage path is configured and the disk and database writes go through.
\<close>

lemma upload_within_handler_space_is_local:
  assumes master: "find (\<lambda>c. sc_SetupType c = ''master'') (SetupConfigs (w_db w)) = Some mc"
    and fits: "uc_FileSize command \<le>s master_free_space (w_db w) mc"
  shows "StorageNodes (w_db (snd (DistributedUpload env w command))) = StorageNodes (w_db w)
     \<and> (\<forall>resp w'. DistributedUpload env w command = (Inr resp, w') \<longrightarrow>
           ur_StorageNode resp = None
         \<and> \<not> stored_on_node (ur_File resp)
         \<and> (\<exists>bucket. find (\<lambda>b. b_Id b = uc_BucketID command) (Buckets (w_db w)) = Some bucket
               \<and> f_Path (ur_File resp) =
                   filepath_Join [filepath_Join [sc_StoragePath mc, b_Name bucket], ue_new_uuid env])
         \<and> w_disk w' (f_Path (ur_File resp)) = ue_read_all env
         \<and> ue_read_all env \<noteq> None
         \<and> Files (w_db w') = Files (w_db w) @ [ur_File resp])
     \<and> ((\<exists>bucket content. find (\<lambda>b. b_Id b = uc_BucketID command) (Buckets (w_db w)) = Some bucket
            \<and> ue_read_all env = Some content)
          \<and> sc_StoragePath mc \<noteq> [] \<and> ue_mkdir_ok env \<and> ue_write_ok env
          \<and> ue_marshal_ok env \<and> ue_file_save_ok env \<and> ue_bucket_read_ok env \<longrightarrow>
         (\<exists>resp w'. DistributedUpload env w command = (Inr resp, w')))"
proof -
  from fits have "\<not> master_free_space (w_db w) mc <s uc_FileSize command"
    by (simp add: signed.not_less)
  with master have run: "DistributedUpload env w command =
     create_file_record env w command mc (ue_new_uuid env) (uc_FileSize command) None"
    by (rule DistributedUpload_local)
  have nodes: "StorageNodes (w_db (snd (DistributedUpload env w command))) = StorageNodes (w_db w)"
    unfolding run by (rule create_file_record_nodes)
  have placed: "ur_StorageNode resp = None
         \<and> \<not> stored_on_node (ur_File resp)
         \<and> (\<exists>bucket. find (\<lambda>b. b_Id b = uc_BucketID command) (Buckets (w_db w)) = Some bucket
               \<and> f_Path (ur_File resp) =
                   filepath_Join [filepath_Join [sc_StoragePath mc, b_Name bucket], ue_new_uuid env])
         \<and> w_disk w' (f_Path (ur_File resp)) = ue_read_all env
         \<and> ue_read_all env \<noteq> None
         \<and> Files (w_db w') = Files (w_db w) @ [ur_File resp]"
    if "DistributedUpload env w command = (Inr resp, w')" for resp w'
  proof -
    from that have ok: "create_file_record env w command mc (ue_new_uuid env) (uc_FileSize command) None
        = (Inr resp, w')"
      by (simp add: run)
    from create_file_record_success_local[OF ok] obtain bucket where
      b: "find (\<lambda>b. b_Id b = uc_BucketID command) (Buckets (w_db w)) = Some bucket
        \<and> f_Path (ur_File resp) =
            filepath_Join [filepath_Join [sc_StoragePath mc, b_Name bucket], ue_new_uuid env]
        \<and> ue_read_all env \<noteq> None
        \<and> w_disk w' = (w_disk w)(f_Path (ur_File resp) := ue_read_all env)" ..
    note path = b[THEN conjunct2, THEN conjunct1]
      and rd = b[THEN conjunct2, THEN conjunct2, THEN conjunct1]
      and disk = b[THEN conjunct2, THEN conjunct2, THEN conjunct2]
    have "\<not> stored_on_node (ur_File resp)"
      by (simp add: stored_on_node_def path filepath_Join_not_node)
    moreover have "\<exists>bucket. find (\<lambda>b. b_Id b = uc_BucketID command) (Buckets (w_db w)) = Some bucket
               \<and> f_Path (ur_File resp) =
                   filepath_Join [filepath_Join [sc_StoragePath mc, b_Name bucket], ue_new_uuid env]"
      using b by blast
    ultimately show ?thesis
      using create_file_record_success(1,2)[OF ok] rd disk by simp
  qed
  have succeeds: "\<exists>resp w'. DistributedUpload env w command = (Inr resp, w')"
    if "(\<exists>bucket content. find (\<lambda>b. b_Id b = uc_BucketID command) (Buckets (w_db w)) = Some bucket
            \<and> ue_read_all env = Some content)
          \<and> sc_StoragePath mc \<noteq> [] \<and> ue_mkdir_ok env \<and> ue_write_ok env
          \<and> ue_marshal_ok env \<and> ue_file_save_ok env \<and> ue_bucket_read_ok env"
    using that unfolding run by (auto intro: create_file_record_runs_local)
  from nodes placed succeeds show ?thesis by blast
qed

lemma upload_within_handler_space_is_local_example:
  "StorageNodes (w_db (snd (DistributedUpload (example_upload_env True)
        (example_world [example_file ''f1'' ''/data/photos/f1'' 900] [example_node ''n2'' True 5000 10])
        (example_upload 100))))
     = [example_node ''n2'' True 5000 10]
   \<and> map_sum id (\<lambda>resp. (ur_StorageNode resp, stored_on_node (ur_File resp)))
      (fst (DistributedUpload (example_upload_env True)
        (example_world [example_file ''f1'' ''/data/photos/f1'' 900] [example_node ''n2'' True 5000 10])
        (example_upload 100)))
     = Inr (None, False)"
proof -
  let ?w = "example_world [example_file ''f1'' ''/data/photos/f1'' 900] [example_node ''n2'' True 5000 10]"
  let ?env = "example_upload_env True"
  let ?c = "example_upload 100"
  have master: "find (\<lambda>c. sc_SetupType c = ''master'') (SetupConfigs (w_db ?w)) = Some example_master"
    by (simp add: example_rule_def example_bucket_def example_file_def example_node_def
      example_master_def example_db_def example_upload_env_def example_upload_def example_world_def)
  have fits: "uc_FileSize ?c \<le>s master_free_space (w_db ?w) example_master"
    by (simp add: master_free_space_def SumField_Size_def example_rule_def example_bucket_def example_file_def example_node_def
      example_master_def example_db_def example_upload_env_def example_upload_def example_world_def)
  have env: "(\<exists>bucket content. find (\<lambda>b. b_Id b = uc_BucketID ?c) (Buckets (w_db ?w)) = Some bucket
            \<and> ue_read_all ?env = Some content)
          \<and> sc_StoragePath example_master \<noteq> [] \<and> ue_mkdir_ok ?env \<and> ue_write_ok ?env
          \<and> ue_marshal_ok ?env \<and> ue_file_save_ok ?env \<and> ue_bucket_read_ok ?env"
    by (simp add: example_rule_def example_bucket_def example_file_def example_node_def
      example_master_def example_db_def example_upload_env_def example_upload_def example_world_def)
  note t = upload_within_handler_space_is_local[OF master fits, of ?env]
  from t[THEN conjunct2, THEN conjunct2, rule_format, OF env]
  obtain resp w' where r: "DistributedUpload ?env ?w ?c = (Inr resp, w')"
    by blast
  from t[THEN conjunct2, THEN conjunct1, rule_format, OF r]
  have local: "ur_StorageNode resp = None" "\<not> stored_on_node (ur_File resp)"
    by simp_all
  have "StorageNodes (w_db (snd (DistributedUpload ?env ?w ?c))) = [example_node ''n2'' True 5000 10]"
    using t[THEN conjunct1] by (simp add: example_rule_def example_bucket_def example_file_def example_node_def
      example_master_def example_db_def example_upload_env_def example_upload_def example_world_def)
  moreover have "map_sum id (\<lambda>resp. (ur_StorageNode resp, stored_on_node (ur_File resp)))
      (fst (DistributedUpload ?env ?w ?c)) = Inr (None, False)"
    using local unfolding r by simp
  ultimately show ?thesis by simp
qed

text \<open>
  Claim C2 on the code. The only record of the table is stored on the node \<open>n2\<close>: nothing is
  on the master's disk, and under the ceiling of 1000 bytes the master has 1000 bytes free.
  An upload of 200 bytes is within that free space, so the claim places it on the master.
  The handler subtracts the 900 bytes of the remote record too, finds 100 bytes, and sends
  the upload to the node: the new record's path is the triple of \<open>n2\<close>, the response names
  \<open>n2\<close>, nothing is written to the master's disk and the counter of \<open>n2\<close> goes from 10 to
  210. This is the defect of the free-space figure that the claim C3 describes.
\<close>

theorem upload_within_local_free_space_sent_to_node:
  "local_free_space (w_db 
        (example_world [example_file ''f1'' ''node://n2/b1/f1'' 900] [example_node ''n2'' True 5000 10])) example_master = 1000
   \<and> uc_FileSize (example_upload 200) \<le>s local_free_space (w_db 
        (example_world [example_file ''f1'' ''node://n2/b1/f1'' 900] [example_node ''n2'' True 5000 10])) example_master
   \<and> master_free_space (w_db 
        (example_world [example_file ''f1'' ''node://n2/b1/f1'' 900] [example_node ''n2'' True 5000 10])) example_master = 100
   \<and> map_sum id (\<lambda>resp. (f_Path (ur_File resp), map_option snr_ID (ur_StorageNode resp),
           stored_on_node (ur_File resp)))
        (fst (DistributedUpload (example_upload_env True) 
        (example_world [example_file ''f1'' ''node://n2/b1/f1'' 900] [example_node ''n2'' True 5000 10]) (example_upload 200)))
      = Inr (''node://n2/b1/f9'', Some ''n2'', True)
   \<and> w_disk (snd (DistributedUpload (example_upload_env True) 
        (example_world [example_file ''f1'' ''node://n2/b1/f1'' 900] [example_node ''n2'' True 5000 10]) (example_upload 200)))
      = w_disk 
        (example_world [example_file ''f1'' ''node://n2/b1/f1'' 900] [example_node ''n2'' True 5000 10])
   \<and> map sn_UsedStorage (StorageNodes (w_db 
        (example_world [example_file ''f1'' ''node://n2/b1/f1'' 900] [example_node ''n2'' True 5000 10]))) = [10]
   \<and> map sn_UsedStorage (StorageNodes (w_db (snd
        (DistributedUpload (example_upload_env True) 
        (example_world [example_file ''f1'' ''node://n2/b1/f1'' 900] [example_node ''n2'' True 5000 10]) (example_upload 200))))) = [210]"
  by (simp add: DistributedUpload_def create_file_record_def store_payload_def uploadToNode_def
      update_StorageNode_def StorageNodeResponse_of_def SumField_Size_def Let_def
      master_free_space_def local_free_space_def stored_on_node_def word_sle_eq
      example_rule_def example_bucket_def example_file_def example_node_def
      example_master_def example_db_def example_upload_env_def example_upload_def example_world_def)

lemma int64_add_exact:
  fixes u s m :: int64
  assumes "0 \<le>s u" and "u \<le>s m" and "0 \<le>s s" and "s \<le>s m - u"
  shows "sint (u + s) = sint u + sint s"
proof -
  have bounds: "sint m < 2 ^ 63" "- (2 ^ 63) \<le> sint u"
    using sint_lt[of m] sint_ge[of u] by simp_all
  have u0: "0 \<le> sint u" and um: "sint u \<le> sint m" and s0: "0 \<le> sint s"
    using assms(1-3) by (simp_all add: word_sle_eq)
  have "sint (m - u) = signed_take_bit 63 (sint m - sint u)"
    by (simp add: sint_word_ariths)
  also have "\<dots> = sint m - sint u"
    using bounds u0 um by (intro signed_take_bit_int_eq_self) simp_all
  finally have "sint s \<le> sint m - sint u"
    using assms(4) by (simp add: word_sle_eq)
  then have le: "sint u + sint s < 2 ^ 63"
    using bounds by simp
  have "sint (u + s) = signed_take_bit 63 (sint u + sint s)"
    by (simp add: sint_word_ariths)
  also have "\<dots> = sint u + sint s"
    using le u0 s0 by (intro signed_take_bit_int_eq_self) simp_all
  finally show ?thesis .
qed

text \<open>
  Claim C1, as the code has it. When the declared size exceeds the master's free space
  and the first active and healthy node of the registry has free space of at least the
  size, the node accepts the write (status 200 or 201), the bucket is read again after
  that and the writes to the database go through, the upload succeeds: the record's path is the triple of that node, the bucket
  and the fresh id, the record is added, and in the registry the rows with that node's id
  carry a counter increased by the size (all other rows are as before). The increase is in
  64-bit arithmetic; it is exact on the integers when the counter is between 0 and the
  node's capacity and the size is not negative.
\<close>

theorem upload_to_first_eligible_node:
  assumes master: "find (\<lambda>c. sc_SetupType c = ''master'') (SetupConfigs (w_db w)) = Some mc"
    and over: "master_free_space (w_db w) mc <s uc_FileSize command"
    and first: "find (\<lambda>n. sn_IsActive n \<and> sn_IsHealthy n) (StorageNodes (w_db w)) = Some node"
    and space: "uc_FileSize command \<le>s sn_MaxStorage node - sn_UsedStorage node"
    and accepted: "uploadToNode env (w_db w) node command (ue_new_uuid env) = Inr True"
    and io: "ue_node_save_ok env \<and> ue_bucket_read_ok env \<and> ue_marshal_ok env
      \<and> ue_file_save_ok env"
  shows "\<exists>resp w'. DistributedUpload env w command = (Inr resp, w')
      \<and> map_option snr_ID (ur_StorageNode resp) = Some (sn_Id node)
      \<and> f_Path (ur_File resp) =
          ''node://'' @ sn_Id node @ ''/'' @ uc_BucketID command @ ''/'' @ ue_new_uuid env
      \<and> stored_on_node (ur_File resp)
      \<and> Files (w_db w') = Files (w_db w) @ [ur_File resp]
      \<and> StorageNodes (w_db w') =
          map (\<lambda>n. if sn_Id n = sn_Id node
                    then node\<lparr>sn_UsedStorage := sn_UsedStorage node + uc_FileSize command\<rparr>
                    else n)
            (StorageNodes (w_db w))
      \<and> w_disk w' = w_disk w
      \<and> (0 \<le>s sn_UsedStorage node \<and> sn_UsedStorage node \<le>s sn_MaxStorage node
           \<and> 0 \<le>s uc_FileSize command \<longrightarrow>
         sint (sn_UsedStorage node + uc_FileSize command) =
           sint (sn_UsedStorage node) + sint (uc_FileSize command))"
proof -
  define node' where "node' = node\<lparr>sn_UsedStorage := sn_UsedStorage node + uc_FileSize command\<rparr>"
  define w1 where "w1 = w\<lparr>w_db := (w_db w)\<lparr>StorageNodes :=
      update_StorageNode node' (StorageNodes (w_db w))\<rparr>\<rparr>"
  from space have sp: "\<not> sn_MaxStorage node - sn_UsedStorage node <s uc_FileSize command"
    by (simp add: signed.not_less)
  have run: "DistributedUpload env w command =
      create_file_record env w1 command mc (ue_new_uuid env) (uc_FileSize command)
        (Some (StorageNodeResponse_of node'))"
    using DistributedUpload_node[OF master over first sp accepted] io
    by (simp add: w1_def node'_def)
  from uploadToNode_bucket[OF accepted] obtain bucket where
    "find (\<lambda>b. b_Id b = uc_BucketID command) (Buckets (w_db w1)) = Some bucket"
    by (auto simp: w1_def)
  from create_file_record_runs_node[OF this] io obtain resp w' where
    ok: "create_file_record env w1 command mc (ue_new_uuid env) (uc_FileSize command)
        (Some (StorageNodeResponse_of node')) = (Inr resp, w')"
    by blast
  have id: "snr_ID (StorageNodeResponse_of node') = sn_Id node"
    by (simp add: StorageNodeResponse_of_def node'_def)
  have path: "f_Path (ur_File resp) =
      ''node://'' @ sn_Id node @ ''/'' @ uc_BucketID command @ ''/'' @ ue_new_uuid env"
    using create_file_record_success_node(1)[OF ok] by (simp add: id)
  have exact: "sint (sn_UsedStorage node + uc_FileSize command) =
           sint (sn_UsedStorage node) + sint (uc_FileSize command)"
    if "0 \<le>s sn_UsedStorage node \<and> sn_UsedStorage node \<le>s sn_MaxStorage node
           \<and> 0 \<le>s uc_FileSize command"
    using that space by (intro int64_add_exact[where m = "sn_MaxStorage node"]) simp_all
  have "DistributedUpload env w command = (Inr resp, w')"
    by (simp add: run ok)
  moreover have "map_option snr_ID (ur_StorageNode resp) = Some (sn_Id node)"
    using create_file_record_success(2)[OF ok] by (simp add: id)
  moreover have "stored_on_node (ur_File resp)"
    by (simp add: stored_on_node_def path)
  moreover have "Files (w_db w') = Files (w_db w) @ [ur_File resp]"
    using create_file_record_success(1)[OF ok] by (simp add: w1_def)
  moreover have "StorageNodes (w_db w') =
          map (\<lambda>n. if sn_Id n = sn_Id node then node' else n) (StorageNodes (w_db w))"
    using create_file_record_success(1)[OF ok]
    by (simp add: w1_def update_StorageNode_def node'_def)
  moreover have "w_disk w' = w_disk w"
    using create_file_record_success_node(2)[OF ok] by (simp add: w1_def)
  ultimately show ?thesis
    using path exact unfolding node'_def by blast
qed

theorem upload_to_first_eligible_node_witness:
  "map_sum id (\<lambda>resp. (f_Path (ur_File resp), map_option snr_ID (ur_StorageNode resp)))
      (fst (DistributedUpload (example_upload_env True)
        (example_world [example_file ''f1'' ''/data/photos/f1'' 900]
           [example_node ''n0'' False 5000 0, example_node ''n2'' True 5000 10]) (example_upload 200)))
     = Inr (''node://n2/b1/f9'', Some ''n2'')
   \<and> StorageNodes (w_db (snd (DistributedUpload (example_upload_env True)
        (example_world [example_file ''f1'' ''/data/photos/f1'' 900]
           [example_node ''n0'' False 5000 0, example_node ''n2'' True 5000 10]) (example_upload 200))))
     = [example_node ''n0'' False 5000 0, example_node ''n2'' True 5000 210]
   \<and> sint (sn_UsedStorage (example_node ''n2'' True 5000 10) + uc_FileSize (example_upload 200)) = 210"
proof -
  let ?w = "example_world [example_file ''f1'' ''/data/photos/f1'' 900]
           [example_node ''n0'' False 5000 0, example_node ''n2'' True 5000 10]"
  let ?n = "example_node ''n2'' True 5000 10"
  have master: "find (\<lambda>c. sc_SetupType c = ''master'') (SetupConfigs (w_db ?w)) = Some example_master"
    by (simp add: example_rule_def example_bucket_def example_file_def example_node_def
      example_master_def example_db_def example_upload_env_def example_upload_def example_world_def)
  have over: "master_free_space (w_db ?w) example_master <s uc_FileSize (example_upload 200)"
    by (simp add: master_free_space_def SumField_Size_def example_rule_def example_bucket_def example_file_def example_node_def
      example_master_def example_db_def example_upload_env_def example_upload_def example_world_def)
  have first: "find (\<lambda>n. sn_IsActive n \<and> sn_IsHealthy n) (StorageNodes (w_db ?w)) = Some ?n"
    by (simp add: example_rule_def example_bucket_def example_file_def example_node_def
      example_master_def example_db_def example_upload_env_def example_upload_def example_world_def)
  have space: "uc_FileSize (example_upload 200) \<le>s sn_MaxStorage ?n - sn_UsedStorage ?n"
    by (simp add: example_rule_def example_bucket_def example_file_def example_node_def
      example_master_def example_db_def example_upload_env_def example_upload_def example_world_def)
  have accepted: "uploadToNode (example_upload_env True) (w_db ?w) ?n (example_upload 200)
      (ue_new_uuid (example_upload_env True)) = Inr True"
    by (simp add: uploadToNode_def example_rule_def example_bucket_def example_file_def example_node_def
      example_master_def example_db_def example_upload_env_def example_upload_def example_world_def)
  have io: "ue_node_save_ok (example_upload_env True) \<and> ue_bucket_read_ok (example_upload_env True)
      \<and> ue_marshal_ok (example_upload_env True) \<and> ue_file_save_ok (example_upload_env True)"
    by (simp add: example_rule_def example_bucket_def example_file_def example_node_def
      example_master_def example_db_def example_upload_env_def example_upload_def example_world_def)
  have sane: "0 \<le>s sn_UsedStorage ?n \<and> sn_UsedStorage ?n \<le>s sn_MaxStorage ?n
      \<and> 0 \<le>s uc_FileSize (example_upload 200)"
    by (simp add: example_rule_def example_bucket_def example_file_def example_node_def
      example_master_def example_db_def example_upload_env_def example_upload_def example_world_def word_sle_eq)
  from upload_to_first_eligible_node[OF master over first space accepted io]
  obtain resp w' where
    r: "DistributedUpload (example_upload_env True) ?w (example_upload 200) = (Inr resp, w')"
    and node: "map_option snr_ID (ur_StorageNode resp) = Some (sn_Id ?n)"
    and path: "f_Path (ur_File resp) = ''node://'' @ sn_Id ?n @ ''/'' @ uc_BucketID (example_upload 200)
        @ ''/'' @ ue_new_uuid (example_upload_env True)"
    and nodes: "StorageNodes (w_db w') =
          map (\<lambda>n. if sn_Id n = sn_Id ?n
                    then ?n\<lparr>sn_UsedStorage := sn_UsedStorage ?n + uc_FileSize (example_upload 200)\<rparr>
                    else n)
            (StorageNodes (w_db ?w))"
    and exact: "0 \<le>s sn_UsedStorage ?n \<and> sn_UsedStorage ?n \<le>s sn_MaxStorage ?n
           \<and> 0 \<le>s uc_FileSize (example_upload 200) \<longrightarrow>
         sint (sn_UsedStorage ?n + uc_FileSize (example_upload 200)) =
           sint (sn_UsedStorage ?n) + sint (uc_FileSize (example_upload 200))"
    by blast
  have "map_sum id (\<lambda>resp. (f_Path (ur_File resp), map_option snr_ID (ur_StorageNode resp)))
      (fst (DistributedUpload (example_upload_env True) ?w (example_upload 200)))
     = Inr (''node://n2/b1/f9'', Some ''n2'')"
    using node path unfolding r by (simp add: example_rule_def example_bucket_def example_file_def example_node_def
      example_master_def example_db_def example_upload_env_def example_upload_def example_world_def)
  moreover have "StorageNodes (w_db (snd (DistributedUpload (example_upload_env True) ?w (example_upload 200))))
     = [example_node ''n0'' False 5000 0, example_node ''n2'' True 5000 210]"
    using nodes unfolding r by (simp add: example_rule_def example_bucket_def example_file_def example_node_def
      example_master_def example_db_def example_upload_env_def example_upload_def example_world_def)
  moreover have "sint (sn_UsedStorage ?n + uc_FileSize (example_upload 200)) = 210"
    using exact sane by (simp add: example_rule_def example_bucket_def example_file_def example_node_def
      example_master_def example_db_def example_upload_env_def example_upload_def example_world_def)
  ultimately show ?thesis by simp
qed

text \<open>
  The claim C1 as stated fails: the master is short of space, the node \<open>n2\<close> is active
  and healthy and has room for the object, yet the upload is refused and nothing is
  written, because the first active and healthy node of the registry, \<open>n1\<close>, is the only
  one the handler looks at and it lacks the room.
\<close>

theorem upload_fails_despite_second_node:
  "master_free_space
      (w_db (example_world [example_file ''f1'' ''/data/photos/f1'' 900]
         [example_node ''n1'' True 500 400, example_node ''n2'' True 5000 0])) example_master
     <s uc_FileSize (example_upload 200)
   \<and> example_node ''n2'' True 5000 0 \<in> set (StorageNodes
      (w_db (example_world [example_file ''f1'' ''/data/photos/f1'' 900]
         [example_node ''n1'' True 500 400, example_node ''n2'' True 5000 0])))
   \<and> sn_IsActive (example_node ''n2'' True 5000 0)
   \<and> sn_IsHealthy (example_node ''n2'' True 5000 0)
   \<and> uc_FileSize (example_upload 200)
        \<le>s sn_MaxStorage (example_node ''n2'' True 5000 0) - sn_UsedStorage (example_node ''n2'' True 5000 0)
   \<and> DistributedUpload (example_upload_env True)
        (example_world [example_file ''f1'' ''/data/photos/f1'' 900]
           [example_node ''n1'' True 500 400, example_node ''n2'' True 5000 0]) (example_upload 200)
      = (Inl NoStorageSpaceAvailable,
         example_world [example_file ''f1'' ''/data/photos/f1'' 900]
           [example_node ''n1'' True 500 400, example_node ''n2'' True 5000 0])"
  by (simp add: master_free_space_def SumField_Size_def DistributedUpload_def Let_def example_rule_def example_bucket_def example_file_def example_node_def
      example_master_def example_db_def example_upload_env_def example_upload_def example_world_def)

lemma DistributedUpload_error_files:
  assumes "DistributedUpload env w command = (Inl e, w')"
  shows "Files (w_db w') = Files (w_db w)"
  using assms
  by (auto simp: DistributedUpload_def Let_def
      split: option.splits sum.splits if_splits dest!: create_file_record_error)

lemma create_file_record_node_errors:
  assumes "create_file_record env w command mc fileID fileSize (Some sn) = (Inl e, w')"
  shows "e = UploadBucketNotFound \<or> e = MarshalMetadataFailed \<or> e = CreateFileRecordFailed"
  using assms
  by (auto simp: create_file_record_def Let_def store_payload_node
      split: if_splits option.splits)

lemma DistributedUpload_local_error:
  assumes "find (\<lambda>c. sc_SetupType c = ''master'') (SetupConfigs (w_db w)) = Some mc"
    and "\<not> master_free_space (w_db w) mc <s uc_FileSize command"
    and "DistributedUpload env w command = (Inl e, w')"
  shows "w_db w' = w_db w"
  using assms(3) unfolding DistributedUpload_local[OF assms(1,2)]
  by (rule create_file_record_error)

lemma DistributedUpload_early_error:
  assumes "DistributedUpload env w command = (Inl e, w')"
    and "e \<noteq> UploadBucketNotFound \<and> e \<noteq> MarshalMetadataFailed \<and> e \<noteq> CreateFileRecordFailed"
  shows "w_db w' = w_db w"
proof (cases "find (\<lambda>c. sc_SetupType c = ''master'') (SetupConfigs (w_db w))")
  case None
  with assms show ?thesis by (simp add: DistributedUpload_def)
next
  case (Some mc)
  show ?thesis
  proof (cases "master_free_space (w_db w) mc <s uc_FileSize command")
    case False
    from DistributedUpload_local[OF Some False] assms(1) show ?thesis
      by (auto dest: create_file_record_error)
  next
    case True
    show ?thesis
    proof (cases "find (\<lambda>n. sn_IsActive n \<and> sn_IsHealthy n) (StorageNodes (w_db w))")
      case None
      with assms(1) Some True show ?thesis
        by (simp add: DistributedUpload_def Let_def master_free_space_handler)
    next
      case node: (Some node)
      show ?thesis
      proof (cases "sn_MaxStorage node - sn_UsedStorage node <s uc_FileSize command")
        case full: True
        with assms(1) Some True node show ?thesis
          by (simp add: DistributedUpload_def Let_def master_free_space_handler)
      next
        case space: False
        show ?thesis
        proof (cases "uploadToNode env (w_db w) node command (ue_new_uuid env) = Inr True")
          case False
          with assms(1) Some True node space show ?thesis
            by (auto simp: DistributedUpload_def Let_def master_free_space_handler
                split: sum.splits if_splits)
        next
          case accepted: True
          from assms(1) have "e = UploadBucketNotFound \<or> e = MarshalMetadataFailed
              \<or> e = CreateFileRecordFailed"
            unfolding DistributedUpload_node[OF Some True node space accepted]
            by (rule create_file_record_node_errors)
          with assms(2) show ?thesis by simp
        qed
      qed
    qed
  qed
qed

lemma DistributedUpload_Inr_cases:
  assumes "DistributedUpload env w command = (Inr resp, w')"
  obtains (local) mc where
      "create_file_record env w command mc (ue_new_uuid env) (uc_FileSize command) None
         = (Inr resp, w')"
    | (node) mc node where
      "find (\<lambda>n. sn_IsActive n \<and> sn_IsHealthy n) (StorageNodes (w_db w)) = Some node"
      "create_file_record env
         (if ue_node_save_ok env
          then w\<lparr>w_db := (w_db w)\<lparr>StorageNodes := update_StorageNode
               (node\<lparr>sn_UsedStorage := sn_UsedStorage node + uc_FileSize command\<rparr>)
               (StorageNodes (w_db w))\<rparr>\<rparr>
          else w)
         command mc (ue_new_uuid env) (uc_FileSize command)
         (Some (StorageNodeResponse_of
            (node\<lparr>sn_UsedStorage := sn_UsedStorage node + uc_FileSize command\<rparr>)))
         = (Inr resp, w')"
  using assms
  by (auto simp: DistributedUpload_def Let_def split: option.splits sum.splits if_splits)

lemma DistributedUpload_success:
  assumes "DistributedUpload env w command = (Inr resp, w')"
  shows "Files (w_db w') = Files (w_db w) @ [ur_File resp]"
    and "ur_StorageNode resp = None \<Longrightarrow> StorageNodes (w_db w') = StorageNodes (w_db w)"
    and "ur_StorageNode resp = Some sn \<Longrightarrow> ue_node_save_ok env \<Longrightarrow>
           \<exists>node. find (\<lambda>n. sn_IsActive n \<and> sn_IsHealthy n) (StorageNodes (w_db w)) = Some node
             \<and> snr_ID sn = sn_Id node
             \<and> StorageNodes (w_db w') =
                 map (\<lambda>n. if sn_Id n = sn_Id node
                    then node\<lparr>sn_UsedStorage := sn_UsedStorage node + uc_FileSize command\<rparr>
                    else n)
                   (StorageNodes (w_db w))"
proof -
  show "Files (w_db w') = Files (w_db w) @ [ur_File resp]"
    using assms
  proof (cases rule: DistributedUpload_Inr_cases)
    case (local mc)
    from create_file_record_success(1)[OF this] show ?thesis by simp
  next
    case (node mc node)
    from create_file_record_success(1)[OF node(2)] show ?thesis by (simp split: if_splits)
  qed
  show "StorageNodes (w_db w') = StorageNodes (w_db w)" if "ur_StorageNode resp = None"
    using assms
  proof (cases rule: DistributedUpload_Inr_cases)
    case (local mc)
    from create_file_record_success(1)[OF this] show ?thesis by simp
  next
    case (node mc node)
    from create_file_record_success(2)[OF node(2)] that show ?thesis by simp
  qed
  show "\<exists>node. find (\<lambda>n. sn_IsActive n \<and> sn_IsHealthy n) (StorageNodes (w_db w)) = Some node
             \<and> snr_ID sn = sn_Id node
             \<and> StorageNodes (w_db w') =
                 map (\<lambda>n. if sn_Id n = sn_Id node
                    then node\<lparr>sn_UsedStorage := sn_UsedStorage node + uc_FileSize command\<rparr>
                    else n)
                   (StorageNodes (w_db w))"
    if "ur_StorageNode resp = Some sn" and "ue_node_save_ok env"
    using assms
  proof (cases rule: DistributedUpload_Inr_cases)
    case (local mc)
    from create_file_record_success(2)[OF this] that show ?thesis by simp
  next
    case (node mc node)
    from create_file_record_success(1,2)[OF node(2)] that node(1) show ?thesis
      by (auto simp: update_StorageNode_def StorageNodeResponse_of_def)
  qed
qed

text \<open>
  Claim C4, as the code has it. An upload that returns an error has created no object
  record. The database is then as before, so no node's counter has changed, in two cases:
  the error is none of the three that the handler raises after a node accepted the write
  and its counter was saved (the bucket is not read, marshalling the metadata fails, saving
  the object record fails); or the placement was local, the size not exceeding the free
  space the handler computes. An upload that returns success has added the object record;
  with local placement the registry is unchanged, and with remote placement the chosen
  node's counter has been increased by the size whenever the update of the node was saved.
\<close>

theorem upload_error_leaves_no_record:
  assumes run: "DistributedUpload env w command = (res, w')"
  shows "(\<forall>e. res = Inl e \<longrightarrow>
            Files (w_db w') = Files (w_db w)
          \<and> (e \<noteq> UploadBucketNotFound \<and> e \<noteq> MarshalMetadataFailed
               \<and> e \<noteq> CreateFileRecordFailed \<longrightarrow> w_db w' = w_db w)
          \<and> (\<forall>mc. find (\<lambda>c. sc_SetupType c = ''master'') (SetupConfigs (w_db w)) = Some mc
                 \<and> uc_FileSize command \<le>s master_free_space (w_db w) mc \<longrightarrow>
               w_db w' = w_db w))
     \<and> (\<forall>resp. res = Inr resp \<longrightarrow>
            Files (w_db w') = Files (w_db w) @ [ur_File resp]
          \<and> (ur_StorageNode resp = None \<longrightarrow> StorageNodes (w_db w') = StorageNodes (w_db w))
          \<and> (\<forall>sn. ur_StorageNode resp = Some sn \<and> ue_node_save_ok env \<longrightarrow>
                (\<exists>node. find (\<lambda>n. sn_IsActive n \<and> sn_IsHealthy n) (StorageNodes (w_db w)) = Some node
                   \<and> snr_ID sn = sn_Id node
                   \<and> StorageNodes (w_db w') =
                       map (\<lambda>n. if sn_Id n = sn_Id node
                          then node\<lparr>sn_UsedStorage := sn_UsedStorage node + uc_FileSize command\<rparr>
                          else n)
                         (StorageNodes (w_db w)))))"
proof (intro conjI allI impI)
  fix e assume "res = Inl e"
  with run have r: "DistributedUpload env w command = (Inl e, w')" by simp
  then show "Files (w_db w') = Files (w_db w)"
    by (rule DistributedUpload_error_files)
  show "w_db w' = w_db w"
    if "e \<noteq> UploadBucketNotFound \<and> e \<noteq> MarshalMetadataFailed \<and> e \<noteq> CreateFileRecordFailed"
    using r that by (rule DistributedUpload_early_error)
  show "w_db w' = w_db w"
    if "find (\<lambda>c. sc_SetupType c = ''master'') (SetupConfigs (w_db w)) = Some mc
          \<and> uc_FileSize command \<le>s master_free_space (w_db w) mc" for mc
  proof -
    from that have "\<not> master_free_space (w_db w) mc <s uc_FileSize command"
      by (simp add: signed.not_less)
    with that show ?thesis
      using r by (intro DistributedUpload_local_error[where mc = mc and e = e and env = env]) simp_all
  qed
next
  fix resp assume "res = Inr resp"
  with run have r: "DistributedUpload env w command = (Inr resp, w')" by simp
  then show "Files (w_db w') = Files (w_db w) @ [ur_File resp]"
    by (rule DistributedUpload_success(1))
  show "StorageNodes (w_db w') = StorageNodes (w_db w)" if "ur_StorageNode resp = None"
    using r that by (rule DistributedUpload_success(2))
  show "\<exists>node. find (\<lambda>n. sn_IsActive n \<and> sn_IsHealthy n) (StorageNodes (w_db w)) = Some node
                   \<and> snr_ID sn = sn_Id node
                   \<and> StorageNodes (w_db w') =
                       map (\<lambda>n. if sn_Id n = sn_Id node
                          then node\<lparr>sn_UsedStorage := sn_UsedStorage node + uc_FileSize command\<rparr>
                          else n)
                         (StorageNodes (w_db w))"
    if "ur_StorageNode resp = Some sn \<and> ue_node_save_ok env" for sn
    using that DistributedUpload_success(3)[OF r] by blast
qed

theorem upload_error_leaves_no_record_witness:
  "Files (w_db (snd (DistributedUpload (example_upload_env False)
        (example_world [example_file ''f1'' ''/data/photos/f1'' 900] [example_node ''n2'' True 5000 10])
        (example_upload 200))))
     = [example_file ''f1'' ''/data/photos/f1'' 900]
   \<and> w_db (snd (DistributedUpload (example_upload_env True)
        (example_world [example_file ''f1'' ''/data/photos/f1'' 900] [example_node ''n1'' True 500 400])
        (example_upload 200)))
     = example_db [example_file ''f1'' ''/data/photos/f1'' 900] [example_node ''n1'' True 500 400] []
   \<and> w_db (snd (DistributedUpload (example_upload_env False)
        (example_world [example_file ''f1'' ''/data/photos/f1'' 900] [example_node ''n2'' True 5000 10])
        (example_upload 100)))
     = example_db [example_file ''f1'' ''/data/photos/f1'' 900] [example_node ''n2'' True 5000 10] []"
proof -
  let ?w = "example_world [example_file ''f1'' ''/data/photos/f1'' 900] [example_node ''n2'' True 5000 10]"
  let ?v = "example_world [example_file ''f1'' ''/data/photos/f1'' 900] [example_node ''n1'' True 500 400]"
  let ?c = "example_upload 200"
  have late: "fst (DistributedUpload (example_upload_env False) ?w ?c) = Inl CreateFileRecordFailed"
    by (simp add: DistributedUpload_def create_file_record_def store_payload_def uploadToNode_def
      update_StorageNode_def StorageNodeResponse_of_def SumField_Size_def Let_def example_rule_def example_bucket_def example_file_def example_node_def
      example_master_def example_db_def example_upload_env_def example_upload_def example_world_def)
  have early: "fst (DistributedUpload (example_upload_env True) ?v ?c) = Inl NoStorageSpaceAvailable"
    by (simp add: DistributedUpload_def SumField_Size_def Let_def example_rule_def example_bucket_def example_file_def example_node_def
      example_master_def example_db_def example_upload_env_def example_upload_def example_world_def)
  from upload_error_leaves_no_record[OF prod.collapse[symmetric], THEN conjunct1, rule_format,
      OF late, THEN conjunct1]
  have "Files (w_db (snd (DistributedUpload (example_upload_env False) ?w ?c)))
     = [example_file ''f1'' ''/data/photos/f1'' 900]"
    by (simp add: example_rule_def example_bucket_def example_file_def example_node_def
      example_master_def example_db_def example_upload_env_def example_upload_def example_world_def)
  moreover
  from upload_error_leaves_no_record[OF prod.collapse[symmetric], THEN conjunct1, rule_format,
      OF early, THEN conjunct2, THEN conjunct1, rule_format]
  have "w_db (snd (DistributedUpload (example_upload_env True) ?v ?c))
     = example_db [example_file ''f1'' ''/data/photos/f1'' 900] [example_node ''n1'' True 500 400] []"
    by (simp add: example_rule_def example_bucket_def example_file_def example_node_def
      example_master_def example_db_def example_upload_env_def example_upload_def example_world_def)
  moreover
  have failed: "fst (DistributedUpload (example_upload_env False) ?w (example_upload 100))
      = Inl CreateFileRecordFailed"
    by (simp add: DistributedUpload_def create_file_record_def store_payload_def
      filepath_Join_def filepath_Clean_def SumField_Size_def Let_def example_rule_def example_bucket_def example_file_def example_node_def
      example_master_def example_db_def example_upload_env_def example_upload_def example_world_def)
  have placed: "find (\<lambda>c. sc_SetupType c = ''master'') (SetupConfigs (w_db ?w)) = Some example_master
      \<and> uc_FileSize (example_upload 100) \<le>s master_free_space (w_db ?w) example_master"
    by (simp add: master_free_space_def SumField_Size_def example_rule_def example_bucket_def example_file_def example_node_def
      example_master_def example_db_def example_upload_env_def example_upload_def example_world_def)
  from upload_error_leaves_no_record[OF prod.collapse[symmetric], THEN conjunct1, rule_format,
      OF failed, THEN conjunct2, THEN conjunct2, rule_format, OF placed]
  have "w_db (snd (DistributedUpload (example_upload_env False) ?w (example_upload 100)))
     = example_db [example_file ''f1'' ''/data/photos/f1'' 900] [example_node ''n2'' True 5000 10] []"
    by (simp add: example_rule_def example_bucket_def example_file_def example_node_def
      example_master_def example_db_def example_upload_env_def example_upload_def example_world_def)
  ultimately show ?thesis by simp
qed

text \<open>
  The claim C4 as stated fails: the node accepted the write and its counter was raised and
  saved, then saving the object record failed; the upload returns that error, and the
  counter stays raised from 10 to 210.
\<close>

theorem upload_error_after_remote_write_keeps_counter:
  "fst (DistributedUpload (example_upload_env False)
        (example_world [example_file ''f1'' ''/data/photos/f1'' 900] [example_node ''n2'' True 5000 10])
        (example_upload 200)) = Inl CreateFileRecordFailed
   \<and> map sn_UsedStorage (StorageNodes (w_db (snd (DistributedUpload (example_upload_env False)
        (example_world [example_file ''f1'' ''/data/photos/f1'' 900] [example_node ''n2'' True 5000 10])
        (example_upload 200))))) = [210]
   \<and> map sn_UsedStorage (StorageNodes (w_db
        (example_world [example_file ''f1'' ''/data/photos/f1'' 900] [example_node ''n2'' True 5000 10])))
      = [10]"
  by (simp add: DistributedUpload_def create_file_record_def store_payload_def uploadToNode_def
      update_StorageNode_def StorageNodeResponse_of_def SumField_Size_def Let_def example_rule_def example_bucket_def example_file_def example_node_def
      example_master_def example_db_def example_upload_env_def example_upload_def example_world_def)

text \<open>
  The same happens when the bucket cannot be read after the node accepted the write: the
  upload returns the bucket error and the counter stays raised.
\<close>

lemma upload_bucket_error_after_remote_write:
  "fst (DistributedUpload ((example_upload_env True)\<lparr>ue_bucket_read_ok := False\<rparr>)
        (example_world [example_file ''f1'' ''/data/photos/f1'' 900] [example_node ''n2'' True 5000 10])
        (example_upload 200)) = Inl UploadBucketNotFound
   \<and> map sn_UsedStorage (StorageNodes (w_db (snd (DistributedUpload
        ((example_upload_env True)\<lparr>ue_bucket_read_ok := False\<rparr>)
        (example_world [example_file ''f1'' ''/data/photos/f1'' 900] [example_node ''n2'' True 5000 10])
        (example_upload 200))))) = [210]"
  by (simp add: DistributedUpload_def create_file_record_def store_payload_def uploadToNode_def
      update_StorageNode_def StorageNodeResponse_of_def SumField_Size_def Let_def example_rule_def example_bucket_def example_file_def example_node_def
      example_master_def example_db_def example_upload_env_def example_upload_def example_world_def)

text \<open>
  Claim C3 on the code. The handler's free space is the ceiling minus the sizes of all
  records, that is the free space left by the local objects minus the sizes of the
  records whose path is a node triple. The table holds one such record of 900 bytes, the
  ceiling is 1000: nothing is on the master's disk, so 1000 bytes are free there, but the
  handler's sum runs over every record and leaves 100. An upload of 200 bytes is therefore
  sent looking for a node and, with none registered, refused.
\<close>

theorem master_free_space_counts_remote_objects:
  "(\<forall>d mc. master_free_space d mc =
       local_free_space d mc - SumField_Size (filter stored_on_node (Files d)))
   \<and> stored_on_node (example_file ''f1'' ''node://n2/b1/f1'' 900)
   \<and> master_free_space (example_db [example_file ''f1'' ''node://n2/b1/f1'' 900] [] []) example_master = 100
   \<and> local_free_space (example_db [example_file ''f1'' ''node://n2/b1/f1'' 900] [] []) example_master = 1000
   \<and> DistributedUpload (example_upload_env True)
        (example_world [example_file ''f1'' ''node://n2/b1/f1'' 900] []) (example_upload 200)
      = (Inl NoActiveStorageNodes, example_world [example_file ''f1'' ''node://n2/b1/f1'' 900] [])"
proof -
  have "stored_on_node (example_file ''f1'' ''node://n2/b1/f1'' 900)
   \<and> master_free_space (example_db [example_file ''f1'' ''node://n2/b1/f1'' 900] [] []) example_master = 100
   \<and> local_free_space (example_db [example_file ''f1'' ''node://n2/b1/f1'' 900] [] []) example_master = 1000
   \<and> DistributedUpload (example_upload_env True)
        (example_world [example_file ''f1'' ''node://n2/b1/f1'' 900] []) (example_upload 200)
      = (Inl NoActiveStorageNodes, example_world [example_file ''f1'' ''node://n2/b1/f1'' 900] [])"
    by (simp add: stored_on_node_def master_free_space_def local_free_space_def SumField_Size_def
      DistributedUpload_def Let_def example_rule_def example_bucket_def example_file_def example_node_def
      example_master_def example_db_def example_upload_env_def example_upload_def example_world_def)
  with master_free_space_split show ?thesis by blast
qed

section \<open>Properties of the node health updates\<close>

lemma health_only_refl: "health_only n n"
  by (simp add: health_only_def)

lemma health_and_active_refl: "health_and_active n n"
  by (simp add: health_and_active_def)

lemma same_key_same_row:
  assumes "distinct (map sn_Id rows)" and "x \<in> set rows" and "y \<in> set rows"
    and "sn_Id x = sn_Id y"
  shows "x = y"
  using assms by (meson distinct_map inj_on_eq_iff)

lemma update_StorageNode_frame:
  assumes keys: "distinct (map sn_Id rows)"
    and n: "n \<in> set rows"
    and id: "sn_Id n' = sn_Id n"
    and rel: "R n n'"
    and refl: "\<And>x. R x x"
  shows "list_all2 R rows (update_StorageNode n' rows)"
proof -
  have "R x (if sn_Id x = sn_Id n' then n' else x)" if "x \<in> set rows" for x
  proof (cases "sn_Id x = sn_Id n'")
    case True
    with keys that n id have "x = n" by (auto intro: same_key_same_row)
    with True rel show ?thesis by simp
  next
    case False
    then show ?thesis by (simp add: refl)
  qed
  then show ?thesis
    by (simp add: update_StorageNode_def list_all2_map2 list_all2_same)
qed

lemma check_nodes_map: "fst (check_nodes net rows) = map (probe_update net) rows"
  by (induction rows) (auto simp: probe_update_def split: prod.splits)

lemma probe_update_id: "sn_Id (probe_update net n) = sn_Id n"
  by (simp add: probe_update_def)

lemma UpdateRange_map:
  assumes id: "\<And>x. sn_Id (g x) = sn_Id x"
  shows "distinct (map sn_Id cur) \<Longrightarrow> set ns \<subseteq> set cur \<Longrightarrow> distinct (map sn_Id ns) \<Longrightarrow>
     UpdateRange (map g ns) cur = map (\<lambda>x. if x \<in> set ns then g x else x) cur"
proof (induction ns arbitrary: cur)
  case Nil
  then show ?case by simp
next
  case (Cons n ns)
  define cur1 where "cur1 = update_StorageNode (g n) cur"
  have n: "n \<in> set cur" and ns: "set ns \<subseteq> set cur"
    and fresh: "sn_Id n \<notin> sn_Id ` set ns" and dns: "distinct (map sn_Id ns)"
    using Cons.prems by auto
  have cur1: "cur1 = map (\<lambda>x. if x = n then g x else x) cur"
    unfolding cur1_def update_StorageNode_def
  proof (rule map_cong[OF refl])
    fix x assume "x \<in> set cur"
    with Cons.prems(1) n have "sn_Id x = sn_Id n \<longleftrightarrow> x = n"
      by (auto intro: same_key_same_row)
    then show "(if sn_Id x = sn_Id (g n) then g n else x) = (if x = n then g x else x)"
      by (auto simp: id)
  qed
  have ids: "map sn_Id cur1 = map sn_Id cur"
    by (simp add: cur1 id cong: if_cong)
  have sub: "set ns \<subseteq> set cur1"
  proof
    fix m assume m: "m \<in> set ns"
    with fresh have "m \<noteq> n" by auto
    moreover from m ns have "m \<in> set cur" by auto
    ultimately show "m \<in> set cur1" by (auto simp: cur1)
  qed
  have gn: "g n \<notin> set ns"
    using fresh id[of n] by (metis imageI)
  have "UpdateRange (map g (n # ns)) cur = UpdateRange (map g ns) cur1"
    by (simp add: cur1_def)
  also have "\<dots> = map (\<lambda>x. if x \<in> set ns then g x else x) cur1"
    using Cons.IH[of cur1] Cons.prems(1) ids sub dns by simp
  also have "\<dots> = map (\<lambda>x. if x \<in> set (n # ns) then g x else x) cur"
    using gn by (auto simp: cur1)
  finally show ?case .
qed

lemma UpdateRange_all:
  assumes "distinct (map sn_Id rows)"
  shows "UpdateRange (map (probe_update net) rows) rows = map (probe_update net) rows"
  using UpdateRange_map[of "probe_update net" rows rows, OF probe_update_id] assms
  by (simp cong: map_cong)

lemma CheckAllNodesHealth_nodes:
  assumes "distinct (map sn_Id (StorageNodes d))"
  shows "StorageNodes (snd (CheckAllNodesHealth net save_ok d)) =
     (if save_ok then map (probe_update net) (StorageNodes d) else StorageNodes d)"
proof -
  obtain a b c where c: "check_nodes net (StorageNodes d) = (a, b, c)"
    by (cases "check_nodes net (StorageNodes d)") auto
  with check_nodes_map[of net "StorageNodes d"] have "a = map (probe_update net) (StorageNodes d)"
    by simp
  with c UpdateRange_all[OF assms, of net] show ?thesis
    by (simp add: CheckAllNodesHealth_def)
qed

lemma probe_update_frame: "health_and_active n (probe_update net n)"
  by (simp add: health_and_active_def probe_update_def)

lemma HealthCheck_frame:
  assumes "distinct (map sn_Id (StorageNodes d))"
  shows "list_all2 health_and_active (StorageNodes d)
     (StorageNodes (snd (HealthCheck net save_ok d nodeIDParam)))"
proof -
  have same: "list_all2 health_and_active (StorageNodes d) (StorageNodes d)"
    by (simp add: list_all2_same health_and_active_refl)
  show ?thesis
  proof (cases nodeIDParam)
    case None
    with same show ?thesis by (simp add: HealthCheck_def)
  next
    case (Some nodeID)
    show ?thesis
    proof (cases "find (\<lambda>n. sn_Id n = nodeID) (StorageNodes d)")
      case None
      with Some same show ?thesis by (simp add: HealthCheck_def)
    next
      case node: (Some storageNode)
      from find_in_set[OF node] have mem: "storageNode \<in> set (StorageNodes d)" by simp
      have "list_all2 health_and_active (StorageNodes d)
          (update_StorageNode (probe_update net storageNode) (StorageNodes d))"
        using assms mem
        by (rule update_StorageNode_frame)
           (simp_all add: probe_update_id probe_update_frame health_and_active_refl)
      with Some node same show ?thesis
        by (auto simp: HealthCheck_def Let_def probe_update_def split: prod.splits)
    qed
  qed
qed

lemma Ping_frame:
  assumes "distinct (map sn_Id (StorageNodes d))"
  shows "list_all2 health_only (StorageNodes d)
     (StorageNodes (snd (Ping save_ok now d nodeURL authorization xApiKey)))"
proof -
  have same: "list_all2 health_only (StorageNodes d) (StorageNodes d)"
    by (simp add: list_all2_same health_only_refl)
  have upd: "list_all2 health_only (StorageNodes d)
      (update_StorageNode (n\<lparr>sn_LastPing := Some now, sn_IsHealthy := True\<rparr>) (StorageNodes d))"
    if "find P (StorageNodes d) = Some n" for P n
    using assms find_in_set[OF that, THEN conjunct1]
    by (rule update_StorageNode_frame) (simp_all add: health_only_def)
  show ?thesis
    using same upd
    by (auto simp: Ping_def Let_def split: option.splits)
qed

text \<open>
  Claim C9, as the code has it. Let the registry rows have distinct ids (the primary key).
  After the per-node probe, after the bulk sweep and after the passive ping, whether or
  not the write is saved, the registry has the same rows in the same order, each with its
  id, name, URL, shared secret, priority, capacity and used-storage counter as before.
  The passive ping changes at most \<open>IsHealthy\<close> and \<open>LastPing\<close>. The two active probes
  change at most \<open>IsHealthy\<close>, \<open>LastPing\<close> and \<open>IsActive\<close>: when the write is saved,
  every swept node, and the node probed on its own, has \<open>IsActive\<close> set.
\<close>

theorem health_updates_frame:
  assumes keys: "distinct (map sn_Id (StorageNodes d))"
  shows "list_all2 health_and_active (StorageNodes d)
           (StorageNodes (snd (HealthCheck net save_ok d nodeIDParam)))
     \<and> list_all2 health_and_active (StorageNodes d)
           (StorageNodes (snd (CheckAllNodesHealth net save_ok d)))
     \<and> list_all2 health_only (StorageNodes d)
           (StorageNodes (snd (Ping save_ok now d nodeURL authorization xApiKey)))
     \<and> (save_ok \<longrightarrow>
          (\<forall>n'\<in>set (StorageNodes (snd (CheckAllNodesHealth net save_ok d))). sn_IsActive n')
        \<and> (\<forall>nodeID n'. find (\<lambda>n. sn_Id n = nodeID)
                (StorageNodes (snd (HealthCheck net save_ok d (Some nodeID)))) = Some n'
              \<longrightarrow> sn_IsActive n'))"
proof (intro conjI impI allI)
  show "list_all2 health_and_active (StorageNodes d)
           (StorageNodes (snd (HealthCheck net save_ok d nodeIDParam)))"
    using keys by (rule HealthCheck_frame)
  show "list_all2 health_and_active (StorageNodes d)
           (StorageNodes (snd (CheckAllNodesHealth net save_ok d)))"
    by (simp add: CheckAllNodesHealth_nodes[OF keys] list_all2_map2 list_all2_same
        probe_update_frame health_and_active_refl)
  show "list_all2 health_only (StorageNodes d)
           (StorageNodes (snd (Ping save_ok now d nodeURL authorization xApiKey)))"
    using keys by (rule Ping_frame)
next
  assume save_ok
  then show "\<forall>n'\<in>set (StorageNodes (snd (CheckAllNodesHealth net save_ok d))). sn_IsActive n'"
    by (simp add: CheckAllNodesHealth_nodes[OF keys] probe_update_def)
next
  fix nodeID n'
  assume save_ok
    and f: "find (\<lambda>n. sn_Id n = nodeID)
                (StorageNodes (snd (HealthCheck net save_ok d (Some nodeID)))) = Some n'"
  show "sn_IsActive n'"
  proof (cases "find (\<lambda>n. sn_Id n = nodeID) (StorageNodes d)")
    case None
    with f show ?thesis by (simp add: HealthCheck_def)
  next
    case (Some storageNode)
    from find_in_set[OF Some] have id: "sn_Id storageNode = nodeID" by simp
    from f Some \<open>save_ok\<close> have "n' \<in> set (update_StorageNode (probe_update net storageNode) (StorageNodes d))"
      "sn_Id n' = nodeID"
      by (auto simp: HealthCheck_def Let_def probe_update_def split: prod.splits dest!: find_in_set)
    then show ?thesis
      using id by (auto simp: update_StorageNode_def probe_update_def split: if_splits)
  qed
qed


theorem health_updates_frame_witness:
  "list_all2 health_and_active
      [example_node ''n1'' False 500 400, example_node ''n2'' True 5000 10]
      (StorageNodes (snd (HealthCheck example_probe True
         (example_db [] [example_node ''n1'' False 500 400, example_node ''n2'' True 5000 10] [])
         (Some ''n1''))))
   \<and> list_all2 health_and_active
      [example_node ''n1'' False 500 400, example_node ''n2'' True 5000 10]
      (StorageNodes (snd (CheckAllNodesHealth example_probe True
         (example_db [] [example_node ''n1'' False 500 400, example_node ''n2'' True 5000 10] []))))
   \<and> list_all2 health_only
      [example_node ''n1'' False 500 400, example_node ''n2'' True 5000 10]
      (StorageNodes (snd (Ping True 77
         (example_db [] [example_node ''n1'' False 500 400, example_node ''n2'' True 5000 10] [])
         ''http://n1'' ''Bearer key-n1'' [])))"
proof -
  let ?d = "example_db [] [example_node ''n1'' False 500 400, example_node ''n2'' True 5000 10] []"
  have keys: "distinct (map sn_Id (StorageNodes ?d))"
    by (simp add: example_db_def example_node_def)
  have rows: "StorageNodes ?d = [example_node ''n1'' False 500 400, example_node ''n2'' True 5000 10]"
    by (simp add: example_db_def)
  from health_updates_frame[OF keys, of example_probe True "Some ''n1''" 77 "''http://n1''"
      "''Bearer key-n1''" "[]"]
  show ?thesis
    unfolding rows by (elim conjE) (intro conjI)
qed

text \<open>
  The claim C9 as stated fails: a node switched off by the administrator (\<open>IsActive\<close>
  false) is active again after the per-node probe and after the bulk sweep; only the
  passive ping leaves the flag alone.
\<close>

theorem active_probe_sets_active_flag:
  "map sn_IsActive (StorageNodes
      (example_db [] [example_node ''n1'' False 500 400] [])) = [False]
   \<and> map sn_IsActive (StorageNodes (snd (HealthCheck example_probe True
         (example_db [] [example_node ''n1'' False 500 400] []) (Some ''n1'')))) = [True]
   \<and> map sn_IsActive (StorageNodes (snd (CheckAllNodesHealth example_probe True
         (example_db [] [example_node ''n1'' False 500 400] [])))) = [True]
   \<and> map sn_IsActive (StorageNodes (snd (Ping True 77
         (example_db [] [example_node ''n1'' False 500 400] [])
         ''http://n1'' ''Bearer key-n1'' []))) = [False]"
  by (simp add: HealthCheck_def CheckAllNodesHealth_def Ping_def pingNode_def
      update_StorageNode_def TrimPrefix_def Let_def example_probe_def example_db_def
      example_node_def)

section \<open>Properties of serving a file\<close>

lemma find_map_same:
  assumes "\<And>x. P (g x) = P x"
  shows "find P (map g xs) = map_option g (find P xs)"
  by (induction xs) (simp_all add: assms)

lemma update_File_touch:
  assumes "distinct (map f_Id rows)" and "fileRow \<in> set rows"
  shows "update_File (fileRow\<lparr>f_AccessedAt := Some now\<rparr>) rows = map (touch (f_Id fileRow) now) rows"
  unfolding update_File_def
proof (rule map_cong[OF refl])
  fix x assume "x \<in> set rows"
  with assms have "f_Id x = f_Id fileRow \<longleftrightarrow> x = fileRow"
    by (meson distinct_map inj_on_eq_iff)
  then show "(if f_Id x = f_Id (fileRow\<lparr>f_AccessedAt := Some now\<rparr>) then fileRow\<lparr>f_AccessedAt := Some now\<rparr> else x)
      = touch (f_Id fileRow) now x"
    by (auto simp: touch_def)
qed

lemma GetFile_found:
  assumes keys: "distinct (map f_Id (Files d))"
    and found: "find (\<lambda>f. f_Id f = fileID \<and> f_BucketId f = bucketID) (Files d) = Some fileRow"
  shows "\<exists>d1. GetFile save_ok now d fileID bucketID = (Inr (fileRow\<lparr>f_AccessedAt := Some now\<rparr>), d1)
     \<and> Buckets d1 = Buckets d \<and> StorageNodes d1 = StorageNodes d
     \<and> SignedURLs d1 = SignedURLs d
     \<and> (Files d1 = Files d \<or> Files d1 = map (touch fileID now) (Files d))"
proof -
  from find_in_set[OF found] have mem: "fileRow \<in> set (Files d)" and id: "f_Id fileRow = fileID"
    by simp_all
  show ?thesis
    using found update_File_touch[OF keys mem, of now] id
    by (cases save_ok) (simp_all add: GetFile_def Let_def)
qed

lemma ValidateSignedURL_tables:
  assumes "SignedURLs d1 = SignedURLs d" and "Buckets d1 = Buckets d" and "Files d1 = Files d"
  shows "ValidateSignedURL hm st t d1 signature = ValidateSignedURL hm st t d signature"
  unfolding ValidateSignedURL_def assms ..

lemma ValidateSignedURL_touched:
  assumes "SignedURLs d1 = SignedURLs d" and "Buckets d1 = Buckets d"
    and "Files d1 = map (touch fileID now) (Files d)"
  shows "ValidateSignedURL hm st t d1 signature = ValidateSignedURL hm st t d signature"
proof -
  have f: "find (\<lambda>f. f_Name f = n \<and> f_BucketId f = b) (map (touch fileID now) (Files d)) =
      map_option (touch fileID now) (find (\<lambda>f. f_Name f = n \<and> f_BucketId f = b) (Files d))" for n b
    by (rule find_map_same) (simp add: touch_def)
  have i: "f_Id (touch fileID now x) = f_Id x" for x
    by (simp add: touch_def)
  show ?thesis
    unfolding ValidateSignedURL_def assms f Let_def
    by (simp add: i split: option.splits)
qed

lemma ValidateSignedURL_touch:
  assumes "SignedURLs d1 = SignedURLs d" and "Buckets d1 = Buckets d"
    and "Files d1 = Files d \<or> Files d1 = map (touch fileID now) (Files d)"
  shows "ValidateSignedURL hm st t d1 signature = ValidateSignedURL hm st t d signature"
  using assms(3)
proof
  assume "Files d1 = Files d"
  with assms(1,2) show ?thesis by (rule ValidateSignedURL_tables)
next
  assume "Files d1 = map (touch fileID now) (Files d)"
  with assms(1,2) show ?thesis by (rule ValidateSignedURL_touched)
qed

lemma find_file_touch:
  "find (\<lambda>f. f_Id f = fileID \<and> f_BucketId f = bucketID) (map (touch i now) rows) =
     map_option (touch i now) (find (\<lambda>f. f_Id f = fileID \<and> f_BucketId f = bucketID) rows)"
  by (rule find_map_same) (simp add: touch_def)

lemma touch_ids: "map f_Id (map (touch i now) rows) = map f_Id rows"
  by (induction rows) (simp_all add: touch_def)

lemma fetchFileFromNode_nodes:
  "StorageNodes d' = StorageNodes d \<Longrightarrow>
     fetchFileFromNode env d' nodeID bucketID fileID filename =
     fetchFileFromNode env d nodeID bucketID fileID filename"
  by (simp add: fetchFileFromNode_def cong: option.case_cong)

lemma MarkSignatureAsUsed_tables:
  "MarkSignatureAsUsed uok sok t d signature = (r, d') \<Longrightarrow>
     Files d' = Files d \<and> Buckets d' = Buckets d \<and> StorageNodes d' = StorageNodes d"
  by (auto simp: MarkSignatureAsUsed_def split: option.splits if_splits)

lemma serve_content_fetch_fails:
  assumes "prefix ''node://'' (f_Path fileInfo)"
    and "3 \<le> length (split_sep (CHR ''/'') (TrimPrefix (f_Path fileInfo) ''node://''))"
    and "\<And>w h q. se_process_image env (f_Path fileInfo) (f_MimeType fileInfo) w h q = None"
    and "fetchFileFromNode env d
           (split_sep (CHR ''/'') (TrimPrefix (f_Path fileInfo) ''node://'') ! 0)
           bucketID fileID (f_Name fileInfo) = Inl e"
  shows "serve_content env d rq bucketID fileID fileInfo =
     JSONError 500 ''Failed to fetch file from storage node''"
  using assms
  by (simp add: serve_content_def Let_def split: prod.splits option.splits)

lemma consumed_tables:
  "SignedURLs d' = SignedURLs d \<Longrightarrow> consumed s e d' = consumed s e d"
  by (simp add: consumed_def)

lemma serve_refuses_consumed:
  assumes keys: "distinct (map f_Id (Files d))"
    and ids: "rq_bucketId rq = Some bucketID \<and> rq_fileId rq = Some fileID"
    and stored: "find (\<lambda>f. f_Id f = fileID \<and> f_BucketId f = bucketID) (Files d) = Some fileRow"
    and bucket: "find (\<lambda>b. b_Id b = bucketID) (Buckets d) = Some bucket \<and> \<not> b_PublicRead bucket"
    and sig: "rq_signature rq \<noteq> []"
    and used: "consumed (rq_signature rq) e d"
  shows "fst (ServeFile hm st env d rq) = JSONError 401 ''Invalid or expired signed URL''"
proof -
  from GetFile_found[OF keys stored, of "se_access_save_ok env" "se_now env"] obtain d1 where
    g: "GetFile (se_access_save_ok env) (se_now env) d fileID bucketID
          = (Inr (fileRow\<lparr>f_AccessedAt := Some (se_now env)\<rparr>), d1)"
    and b1: "Buckets d1 = Buckets d" and s1: "SignedURLs d1 = SignedURLs d"
    by blast
  from used have "consumed (rq_signature rq) e d1"
    by (simp only: consumed_tables[OF s1])
  then have "\<exists>err. ValidateSignedURL hm st (se_now env) d1 (rq_signature rq) = Inl err"
    by (simp add: consumed_validate)
  then have "serve_authorize hm st env d1 rq True
      = (Some (JSONError 401 ''Invalid or expired signed URL''), d1)"
    using sig by (auto simp: serve_authorize_def Let_def)
  with g b1 bucket ids show ?thesis
    by (simp add: ServeFile_def Let_def)
qed

text \<open>
  Claim C10. A request for a file of a non-public bucket presents the signature of a valid
  single-use token; the file's path is a \<open>node://\<close> triple, image scaling yields nothing
  for it, and fetching the bytes from the node fails. (File ids are distinct, the marking
  of the token is saved.) Then \<open>ServeFile\<close> answers with status 500, and in the database
  it leaves behind the token is consumed: it was marked before the fetch and is not put
  back. Every later validation of the signature fails, with "already used" up to the
  expiry and "expired" after it, whatever validate and mark-used calls come in between,
  and presenting the same token to \<open>ServeFile\<close> again is answered with status 401.
\<close>

theorem single_use_token_consumed_when_fetch_fails:
  assumes keys: "distinct (map f_Id (Files d))"
    and ids: "rq_bucketId rq = Some bucketID \<and> rq_fileId rq = Some fileID"
    and stored: "find (\<lambda>f. f_Id f = fileID \<and> f_BucketId f = bucketID) (Files d) = Some fileRow"
    and bucket: "find (\<lambda>b. b_Id b = bucketID) (Buckets d) = Some bucket \<and> \<not> b_PublicRead bucket"
    and token: "rq_signature rq \<noteq> []
        \<and> ValidateSignedURL hm st (se_now env) d (rq_signature rq) = Inr signedURL
        \<and> su_SingleUse signedURL"
    and mark: "se_mark_update_ok env \<and> se_mark_save_ok env"
    and remote: "prefix ''node://'' (f_Path fileRow)
        \<and> 3 \<le> length (split_sep (CHR ''/'') (TrimPrefix (f_Path fileRow) ''node://''))"
    and noimg: "\<forall>w h q. se_process_image env (f_Path fileRow) (f_MimeType fileRow) w h q = None"
    and fetch: "fetchFileFromNode env d
           (split_sep (CHR ''/'') (TrimPrefix (f_Path fileRow) ''node://'') ! 0)
           bucketID fileID (f_Name fileRow) = Inl e"
  shows "\<exists>d'. ServeFile hm st env d rq =
           (JSONError 500 ''Failed to fetch file from storage node'', d')
      \<and> consumed (rq_signature rq) (su_ExpiresAt signedURL) d'
      \<and> (\<forall>t calls.
            ValidateSignedURL hm st t (run_token_calls (rq_signature rq) calls d') (rq_signature rq) =
              (if su_ExpiresAt signedURL < t then Inl SignatureExpired
               else Inl SignatureAlreadyUsed))
      \<and> (\<forall>env'. fst (ServeFile hm st env' d' rq) =
            JSONError 401 ''Invalid or expired signed URL'')"
proof -
  let ?sig = "rq_signature rq"
  let ?now = "se_now env"
  let ?info = "fileRow\<lparr>f_AccessedAt := Some ?now\<rparr>"
  from GetFile_found[OF keys stored, of "se_access_save_ok env" ?now] obtain d1 where
    g: "GetFile (se_access_save_ok env) ?now d fileID bucketID = (Inr ?info, d1)"
    and b1: "Buckets d1 = Buckets d" and n1: "StorageNodes d1 = StorageNodes d"
    and s1: "SignedURLs d1 = SignedURLs d"
    and f1: "Files d1 = Files d \<or> Files d1 = map (touch fileID ?now) (Files d)"
    by blast
  have v1: "ValidateSignedURL hm st ?now d1 ?sig = Inr signedURL"
    using ValidateSignedURL_touch[OF s1 b1 f1] token by simp
  from validate_Inr_row(1,3)[OF v1] token
  have row: "find (\<lambda>r. su_Signature r = ?sig) (SignedURLs d1) = Some signedURL"
    and fresh: "su_SingleUse signedURL \<and> \<not> su_Used signedURL"
    by simp_all
  obtain d2 where
    m: "MarkSignatureAsUsed (se_mark_update_ok env) (se_mark_save_ok env) ?now d1 ?sig = (None, d2)"
    using row fresh mark by (simp add: MarkSignatureAsUsed_def)
  from mark_consumes[OF row _ m] fresh have used: "consumed ?sig (su_ExpiresAt signedURL) d2"
    by simp
  from MarkSignatureAsUsed_tables[OF m] b1 n1
  have f2: "Files d2 = Files d1" and b2: "Buckets d2 = Buckets d"
    and n2: "StorageNodes d2 = StorageNodes d"
    by simp_all
  have auth: "serve_authorize hm st env d1 rq True = (None, d2)"
    using token v1 fresh m by (simp add: serve_authorize_def Let_def)
  have "fetchFileFromNode env d2
           (split_sep (CHR ''/'') (TrimPrefix (f_Path ?info) ''node://'') ! 0)
           bucketID fileID (f_Name ?info) = Inl e"
    using fetch fetchFileFromNode_nodes[OF n2] by simp
  then have content: "serve_content env d2 rq bucketID fileID ?info =
     JSONError 500 ''Failed to fetch file from storage node''"
    using remote noimg by (intro serve_content_fetch_fails) simp_all
  have run: "ServeFile hm st env d rq =
      (JSONError 500 ''Failed to fetch file from storage node'', d2)"
    using ids g bucket b1 auth content by (simp add: ServeFile_def Let_def)
  have later: "ValidateSignedURL hm st t (run_token_calls ?sig calls d2) ?sig =
      (if su_ExpiresAt signedURL < t then Inl SignatureExpired else Inl SignatureAlreadyUsed)"
    for t calls
    using consumed_run[OF used] by (rule consumed_validate)
  have "map f_Id (Files d2) = map f_Id (Files d)"
    using f1 unfolding f2 by (rule disjE) (simp_all only: touch_ids)
  with keys have keys2: "distinct (map f_Id (Files d2))"
    by (simp only:)
  have "\<exists>f. find (\<lambda>f. f_Id f = fileID \<and> f_BucketId f = bucketID) (Files d1) = Some f"
    using f1
  proof
    assume "Files d1 = Files d"
    with stored show ?thesis by (simp only:) blast
  next
    assume "Files d1 = map (touch fileID ?now) (Files d)"
    with stored show ?thesis by (simp only: find_file_touch option.map) blast
  qed
  then have stored2:
    "\<exists>f. find (\<lambda>f. f_Id f = fileID \<and> f_BucketId f = bucketID) (Files d2) = Some f"
    by (simp only: f2)
  have again: "fst (ServeFile hm st env' d2 rq) = JSONError 401 ''Invalid or expired signed URL''"
    for env'
  proof -
    from stored2 obtain f where
      f: "find (\<lambda>f. f_Id f = fileID \<and> f_BucketId f = bucketID) (Files d2) = Some f" ..
    from bucket b2
    have b: "find (\<lambda>b. b_Id b = bucketID) (Buckets d2) = Some bucket \<and> \<not> b_PublicRead bucket"
      by simp
    from token have "?sig \<noteq> []" by simp
    from serve_refuses_consumed[OF keys2 ids f b this used] show ?thesis .
  qed
  show ?thesis
  proof (intro exI[of _ d2] conjI allI)
    show "ServeFile hm st env d rq =
           (JSONError 500 ''Failed to fetch file from storage node'', d2)"
      by (rule run)
    show "consumed ?sig (su_ExpiresAt signedURL) d2"
      by (rule used)
    show "ValidateSignedURL hm st t (run_token_calls ?sig calls d2) ?sig =
              (if su_ExpiresAt signedURL < t then Inl SignatureExpired
               else Inl SignatureAlreadyUsed)" for t calls
      by (rule later)
    show "fst (ServeFile hm st env' d2 rq) = JSONError 401 ''Invalid or expired signed URL''"
      for env'
      by (rule again)
  qed
qed

theorem single_use_token_consumed_when_fetch_fails_witness:
  "fst (ServeFile example_hmac example_settings (example_serve_env 10)
      (example_db [example_file ''f1'' ''node://n2/b1/f1'' 100] [example_node ''n2'' True 5000 100]
         [example_token ''k#b1:f1'' 60 True False]) example_request)
     = JSONError 500 ''Failed to fetch file from storage node''
   \<and> ValidateSignedURL example_hmac example_settings 11
      (snd (ServeFile example_hmac example_settings (example_serve_env 10)
        (example_db [example_file ''f1'' ''node://n2/b1/f1'' 100] [example_node ''n2'' True 5000 100]
           [example_token ''k#b1:f1'' 60 True False]) example_request)) ''k#b1:f1''
     = Inl SignatureAlreadyUsed
   \<and> fst (ServeFile example_hmac example_settings (example_serve_env 12)
      (snd (ServeFile example_hmac example_settings (example_serve_env 10)
        (example_db [example_file ''f1'' ''node://n2/b1/f1'' 100] [example_node ''n2'' True 5000 100]
           [example_token ''k#b1:f1'' 60 True False]) example_request)) example_request)
     = JSONError 401 ''Invalid or expired signed URL''"
proof -
  let ?d = "example_db [example_file ''f1'' ''node://n2/b1/f1'' 100] [example_node ''n2'' True 5000 100]
         [example_token ''k#b1:f1'' 60 True False]"
  let ?env = "example_serve_env 10"
  let ?f = "example_file ''f1'' ''node://n2/b1/f1'' 100"
  let ?tok = "example_token ''k#b1:f1'' 60 True False"
  have keys: "distinct (map f_Id (Files ?d))"
    by (simp add: example_db_def example_file_def)
  have ids: "rq_bucketId example_request = Some ''b1'' \<and> rq_fileId example_request = Some ''f1''"
    by (simp add: example_request_def)
  have stored: "find (\<lambda>f. f_Id f = ''f1'' \<and> f_BucketId f = ''b1'') (Files ?d) = Some ?f"
    by (simp add: example_db_def example_file_def)
  have bucket: "find (\<lambda>b. b_Id b = ''b1'') (Buckets ?d) = Some example_bucket
      \<and> \<not> b_PublicRead example_bucket"
    by (simp add: example_db_def example_bucket_def)
  have token: "rq_signature example_request \<noteq> []
      \<and> ValidateSignedURL example_hmac example_settings (se_now ?env) ?d (rq_signature example_request)
          = Inr ?tok
      \<and> su_SingleUse ?tok"
    by (simp add: ValidateSignedURL_def example_request_def example_serve_env_def example_db_def
        example_file_def example_bucket_def example_token_def example_hmac_def example_settings_def)
  have mark: "se_mark_update_ok ?env \<and> se_mark_save_ok ?env"
    by (simp add: example_serve_env_def)
  have remote: "prefix ''node://'' (f_Path ?f)
      \<and> 3 \<le> length (split_sep (CHR ''/'') (TrimPrefix (f_Path ?f) ''node://''))"
    by (simp add: example_file_def TrimPrefix_def)
  have noimg: "\<forall>w h q. se_process_image ?env (f_Path ?f) (f_MimeType ?f) w h q = None"
    by (simp add: example_serve_env_def)
  have fetch: "fetchFileFromNode ?env ?d
      (split_sep (CHR ''/'') (TrimPrefix (f_Path ?f) ''node://'') ! 0) ''b1'' ''f1'' (f_Name ?f)
      = Inl (NodeReturnedStatus 503)"
    by (simp add: fetchFileFromNode_def example_serve_env_def example_db_def example_file_def
        example_node_def TrimPrefix_def)
  from single_use_token_consumed_when_fetch_fails[OF keys ids stored bucket token mark remote
      noimg fetch]
  obtain d' where run: "ServeFile example_hmac example_settings ?env ?d example_request =
           (JSONError 500 ''Failed to fetch file from storage node'', d')"
    and later: "\<forall>t calls. ValidateSignedURL example_hmac example_settings t
          (run_token_calls (rq_signature example_request) calls d') (rq_signature example_request) =
              (if su_ExpiresAt ?tok < t then Inl SignatureExpired else Inl SignatureAlreadyUsed)"
    and again: "\<forall>env'. fst (ServeFile example_hmac example_settings env' d' example_request) =
            JSONError 401 ''Invalid or expired signed URL''"
    by blast
  from later[rule_format, of 11 "[]"]
  have "ValidateSignedURL example_hmac example_settings 11 d' ''k#b1:f1'' = Inl SignatureAlreadyUsed"
    by (simp add: example_request_def example_token_def)
  with again[rule_format, of "example_serve_env 12"] show ?thesis
    unfolding run by simp
qed

end
